theory Spec2Isabelle
  imports Main
begin

section \<open>Strings\<close>

text \<open>
  A Python string is the list of its code points, so that \<open>len\<close>, slices and the
  character tests count and see what Python's do.  \<open>lit\<close> reads a literal of the
  source.  Dictionary keys and thread ids are only ever compared, and stay plain
  strings.
\<close>

type_synonym pystr = "int list"

definition lit :: "string \<Rightarrow> pystr" where
  "lit s = map of_char s"

definition nl :: pystr where
  "nl = [10]"

text \<open>
  \<open>str.isspace\<close> on one character: the blanks that \<open>str.strip()\<close> removes and that
  \<^verbatim>\<open>\s\<close> matches.  Besides the ASCII blanks these are U+0085, U+00A0, U+1680,
  U+2000 to U+200A, U+2028, U+2029, U+202F, U+205F and U+3000.
\<close>

definition is_space :: "int \<Rightarrow> bool" where
  "is_space c =
     ((9 \<le> c \<and> c \<le> 13) \<or> (28 \<le> c \<and> c \<le> 32) \<or> c = 133 \<or> c = 160 \<or> c = 5760
      \<or> (8192 \<le> c \<and> c \<le> 8202) \<or> c = 8232 \<or> c = 8233 \<or> c = 8239 \<or> c = 8287
      \<or> c = 12288)"

text \<open>\<open>s.strip()\<close>\<close>

definition strip :: "pystr \<Rightarrow> pystr" where
  "strip s = rev (dropWhile is_space (rev (dropWhile is_space s)))"

text \<open>\<open>s.startswith(p)\<close> and \<open>p in s\<close>\<close>

definition starts_with :: "pystr \<Rightarrow> pystr \<Rightarrow> bool" where
  "starts_with p s = (take (length p) s = p)"

fun contains :: "pystr \<Rightarrow> pystr \<Rightarrow> bool" where
  "contains p [] = (p = [])"
| "contains p (c # cs) = (starts_with p (c # cs) \<or> contains p cs)"

text \<open>\<open>sep.join(xs)\<close>\<close>

fun join :: "pystr \<Rightarrow> pystr list \<Rightarrow> pystr" where
  "join sep [] = []"
| "join sep [x] = x"
| "join sep (x # y # ys) = x @ sep @ join sep (y # ys)"

text \<open>
  \<open>s.split(sep)\<close> for a separator that is not empty (the source splits on two
  constants only).
\<close>

function split_on :: "pystr \<Rightarrow> pystr \<Rightarrow> pystr \<Rightarrow> pystr list" where
  "split_on sep acc s =
     (if s = [] then [rev acc]
      else if sep \<noteq> [] \<and> starts_with sep s then rev acc # split_on sep [] (drop (length sep) s)
      else split_on sep (hd s # acc) (tl s))"
  by pat_completeness auto
termination
  by (relation "measure (\<lambda>(sep, acc, s). length s)") auto

definition py_split :: "pystr \<Rightarrow> pystr \<Rightarrow> pystr list" where
  "py_split s sep = split_on sep [] s"

text \<open>\<open>str(n)\<close> for a number that is not negative, and \<open>str(x)\<close> for a string or \<open>None\<close>.\<close>

fun show_nat :: "nat \<Rightarrow> pystr" where
  "show_nat n =
     (if n < 10 then [48 + int n] else show_nat (n div 10) @ [48 + int (n mod 10)])"

definition str_opt :: "pystr option \<Rightarrow> pystr" where
  "str_opt x = (case x of None \<Rightarrow> lit ''None'' | Some s \<Rightarrow> s)"

section \<open>Python values, dictionaries and exceptions\<close>

text \<open>
  The values that the pipeline stores in untyped dictionaries (\<open>Dict[str, Any]\<close>):
  the human feedback record, the inputs and outputs of a log entry, and the JSON that
  the language model answers with.  A dictionary is an association list, in insertion
  order; every dictionary literal of the source has distinct keys.
\<close>

datatype pyval =
    PyNone
  | PyBool bool
  | PyInt int
  | PyStr pystr
  | PyList "pyval list"
  | PyDict "(string \<times> pyval) list"

type_synonym pydict = "(string \<times> pyval) list"

text \<open>\<open>d.get(k, dflt)\<close>\<close>

definition dict_get :: "pydict \<Rightarrow> string \<Rightarrow> pyval \<Rightarrow> pyval" where
  "dict_get d k dflt = (case map_of d k of None \<Rightarrow> dflt | Some v \<Rightarrow> v)"

text \<open>Truth value of a Python object, as \<open>if x\<close>, \<open>not x\<close> and \<open>x or y\<close> test it.\<close>

fun truthy :: "pyval \<Rightarrow> bool" where
  "truthy PyNone = False"
| "truthy (PyBool b) = b"
| "truthy (PyInt i) = (i \<noteq> 0)"
| "truthy (PyStr s) = (s \<noteq> [])"
| "truthy (PyList xs) = (xs \<noteq> [])"
| "truthy (PyDict d) = (d \<noteq> [])"

text \<open>
  Exceptions are values.  \<open>External\<close> is whatever a collaborator raises (the search
  service, the language model, the network).
\<close>

datatype exn =
    IndexError
  | TypeError
  | AttributeError
  | KeyError pystr
  | ValueError pystr
  | External pystr

section \<open>The run state (backend/models.py)\<close>

record ClaimWithSource =
  claim :: pystr
  source_url :: pystr
  source_title :: pystr
  excerpt :: pystr
  verified :: bool
  verification_reasoning :: pystr
  accessed_date :: pystr

text \<open>
  A relevance score is a Python number: the integer default \<open>0\<close> of \<open>search_node\<close>, or
  the float of the search service, given by its mantissa and binary exponent.  The
  pipeline stores the score and never computes with it.
\<close>

datatype pynum = NumInt int | NumFloat int int

text \<open>
  One element of \<open>raw_search_results\<close>, the dictionary that \<open>search_node\<close> builds.
  \<open>None\<close> is Python's \<open>None\<close>.
\<close>

record search_hit =
  url :: "pystr option"
  title :: "pystr option"
  snippet :: "pystr option"
  raw_content :: "pystr option"
  score :: "pynum option"

text \<open>The dictionary that \<open>log_node_execution\<close> returns.\<close>

record log_entry =
  node :: pystr
  timestamp :: pystr
  inputs :: pydict
  prompt :: "pystr option"
  outputs :: pydict
  model_settings :: pydict
  human_decision :: pyval

text \<open>The final brief of \<open>final_brief_node\<close>.\<close>

record key_finding =
  finding :: pystr
  citation :: pystr
  source :: pystr
  finding_url :: pystr
  finding_excerpt :: pystr

record reading =
  reading_title :: pystr
  reading_url :: pystr
  accessed :: pystr

record appendix_rec =
  node_trace :: "pystr list"
  research_date :: pystr
  sources_analyzed :: nat
  claims_extracted :: nat
  claims_verified :: nat

record brief =
  brief_title :: pystr
  introduction :: pystr
  summary :: pyval
  lecture_plan :: "pystr list"
  lecture_sections :: pyval
  key_findings :: "key_finding list"
  risks :: pyval
  further_reading :: "reading list"
  appendix :: appendix_rec

text \<open>
  \<open>AgentState\<close>.  The two fields that the routers read with \<open>state.get(key, default)\<close>
  are optional: \<open>None\<close> is a state without the key.  Every other field is always
  present, as the \<open>TypedDict\<close> declares and \<open>start_research\<close> sets it.
\<close>

record AgentState =
  topic :: pystr
  search_queries :: "pystr list"
  raw_search_results :: "search_hit list"
  extracted_claims :: "ClaimWithSource list"
  draft_plan :: "pystr list"
  human_feedback :: "pydict option"
  refined_plan :: "pystr list"
  verified_claims :: "ClaimWithSource list"
  final_brief :: "brief option"
  node_logs :: "log_entry list"
  messages :: "pyval list"
  route_to :: "pystr option"
  refinement_notes :: pystr

section \<open>The graph (backend/graph.py)\<close>

datatype node =
    Input
  | Search
  | Extract
  | Prioritize
  | Verify
  | Synthesize
  | Plan_review
  | Refine
  | Fact_verification
  | Final_brief

fun node_name :: "node \<Rightarrow> pystr" where
  "node_name Input = lit ''input''"
| "node_name Search = lit ''search''"
| "node_name Extract = lit ''extract''"
| "node_name Prioritize = lit ''prioritize''"
| "node_name Verify = lit ''verify''"
| "node_name Synthesize = lit ''synthesize''"
| "node_name Plan_review = lit ''plan_review''"
| "node_name Refine = lit ''refine''"
| "node_name Fact_verification = lit ''fact_verification''"
| "node_name Final_brief = lit ''final_brief''"

definition entry_point :: node where
  "entry_point = Input"

text \<open>
  \<open>route_after_plan_review\<close>:
  \<^verbatim>\<open>decision = state.get("human_feedback", {}).get("decision", "")\<close>,
  then \<open>"fact_verification"\<close> if \<open>decision == "approve"\<close> and \<open>"refine"\<close> otherwise.
\<close>

definition route_after_plan_review :: "AgentState \<Rightarrow> pystr" where
  "route_after_plan_review state =
     (let decision =
            dict_get (case human_feedback state of None \<Rightarrow> [] | Some fb \<Rightarrow> fb)
              ''decision'' (PyStr [])
      in if decision = PyStr (lit ''approve'') then lit ''fact_verification'' else lit ''refine'')"

text \<open>\<open>route_after_refine\<close>: \<^verbatim>\<open>return state.get("route_to", "fact_verification")\<close>.\<close>

definition route_after_refine :: "AgentState \<Rightarrow> pystr" where
  "route_after_refine state =
     (case route_to state of None \<Rightarrow> lit ''fact_verification'' | Some r \<Rightarrow> r)"

text \<open>The two path maps given to \<open>add_conditional_edges\<close>.\<close>

definition plan_review_paths :: "(pystr \<times> node) list" where
  "plan_review_paths =
     [(lit ''fact_verification'', Fact_verification), (lit ''refine'', Refine)]"

definition refine_paths :: "(pystr \<times> node) list" where
  "refine_paths =
     [(lit ''search'', Search), (lit ''synthesize'', Synthesize),
      (lit ''fact_verification'', Fact_verification)]"

datatype engine_error =
    ThreadNotFound
  | RoutingError pystr
  | StepFailed exn

text \<open>
  Modelled from the spec: the engine's choice of the next node (the graph library that
  compiles and runs the workflow is not part of the repository).  A fixed edge is
  followed; after a node with conditional edges the router is called and its answer
  is looked up in the declared path map, and an answer outside the map is a
  \<open>RoutingError\<close>.  \<open>None\<close> is \<open>END\<close>.  The edges and the path maps are those of
  \<open>build_graph\<close>.
\<close>

definition follow :: "(pystr \<times> node) list \<Rightarrow> pystr \<Rightarrow> engine_error + node option" where
  "follow paths r =
     (case map_of paths r of None \<Rightarrow> Inl (RoutingError r) | Some n \<Rightarrow> Inr (Some n))"

fun next_node :: "node \<Rightarrow> AgentState \<Rightarrow> engine_error + node option" where
  "next_node Input state = Inr (Some Search)"
| "next_node Search state = Inr (Some Extract)"
| "next_node Extract state = Inr (Some Prioritize)"
| "next_node Prioritize state = Inr (Some Verify)"
| "next_node Verify state = Inr (Some Synthesize)"
| "next_node Synthesize state = Inr (Some Plan_review)"
| "next_node Plan_review state = follow plan_review_paths (route_after_plan_review state)"
| "next_node Refine state = follow refine_paths (route_after_refine state)"
| "next_node Fact_verification state = Inr (Some Final_brief)"
| "next_node Final_brief state = Inr None"

section \<open>The environment\<close>

text \<open>
  What the pipeline asks of the outside is a parameter.  Calls that can answer
  differently each time (the clock, the search service, the language model, the
  network) take the state of the world \<open>'w\<close> and return the next one.  The prompt
  templates are files that are not part of the repository, and JSON and HTML parsing,
  Unicode case mapping and the character classes of regular expressions are library
  code: they are functions of their arguments.
  Printing to the console and appending to the log file are not modelled.
\<close>

datatype 'a field = Missing | Null | Value 'a

text \<open>\<open>d.get(key, default)\<close> on a field of a JSON object.\<close>

fun field_get :: "'a field \<Rightarrow> 'a option \<Rightarrow> 'a option" where
  "field_get Missing dflt = dflt"
| "field_get Null dflt = None"
| "field_get (Value v) dflt = Some v"

text \<open>One element of the \<open>results\<close> list that the search service returns.\<close>

record tavily_item =
  item_url :: "pystr field"
  item_title :: "pystr field"
  item_content :: "pystr field"
  item_raw_content :: "pystr field"
  item_score :: "pynum field"

record 'w env =
  model_name :: pystr
    \<comment> \<open>\<open>MODEL\<close>\<close>
  now_iso :: "'w \<Rightarrow> pystr \<times> 'w"
    \<comment> \<open>\<open>datetime.now().isoformat()\<close>\<close>
  now_pretty :: "'w \<Rightarrow> pystr \<times> 'w"
    \<comment> \<open>\<open>datetime.now().strftime("%B %d, %Y at %I:%M %p")\<close>\<close>
  strftime_date :: "pystr \<Rightarrow> exn + pystr"
    \<comment> \<open>\<open>datetime.fromisoformat(s).strftime("%B %d, %Y")\<close>\<close>
  tavily_search :: "pystr \<Rightarrow> 'w \<Rightarrow> (exn + tavily_item list) \<times> 'w"
    \<comment> \<open>\<open>tavily_client.search(query=q, ...).get("results", [])\<close>\<close>
  llm_invoke :: "pystr \<Rightarrow> 'w \<Rightarrow> (exn + pystr) \<times> 'w"
    \<comment> \<open>the text of \<open>llm.invoke(prompt)\<close>\<close>
  http_get :: "pystr \<Rightarrow> 'w \<Rightarrow> (exn + nat \<times> pystr) \<times> 'w"
    \<comment> \<open>\<open>requests.get\<close>: the status code, and the page's text as
       \<open>fetch_with_beautifulsoup\<close> cleans it\<close>
  format_extract :: "pystr \<Rightarrow> pystr \<Rightarrow> exn + pystr"
    \<comment> \<open>\<open>get_prompt("extract").format(topic=, context=)\<close>\<close>
  format_synthesize :: "pystr \<Rightarrow> pystr \<Rightarrow> exn + pystr"
    \<comment> \<open>\<open>get_prompt("synthesize").format(topic=, claims_text=)\<close>\<close>
  format_content :: "pystr \<Rightarrow> pystr \<Rightarrow> pystr \<Rightarrow> exn + pystr"
    \<comment> \<open>\<open>get_prompt("content").format(topic=, claims_text=, plan_text=)\<close>\<close>
  json_array :: "pystr \<Rightarrow> exn + pyval"
    \<comment> \<open>\<open>extract_node\<close>: the answer stripped of code fences, cut to its JSON array,
       and read by \<open>json.loads\<close>\<close>
  json_object :: "pystr \<Rightarrow> exn + pyval"
    \<comment> \<open>\<open>final_brief_node\<close>: the answer cut to its JSON object and read by
       \<open>json.loads\<close>\<close>
  str_lower :: "pystr \<Rightarrow> pystr"
    \<comment> \<open>\<open>s.lower()\<close>\<close>
  str_upper :: "pystr \<Rightarrow> pystr"
    \<comment> \<open>\<open>s.upper()\<close>\<close>
  str_title :: "pystr \<Rightarrow> pystr"
    \<comment> \<open>\<open>s.title()\<close>\<close>
  is_decimal :: "int \<Rightarrow> bool"
    \<comment> \<open>the characters that \<^verbatim>\<open>\d\<close> matches\<close>
  is_alnum :: "int \<Rightarrow> bool"
    \<comment> \<open>the letters and digits among the characters that \<^verbatim>\<open>\w\<close> matches\<close>

definition MODEL_CONFIG :: "'w env \<Rightarrow> pydict" where
  "MODEL_CONFIG env =
     [(''model'', PyStr (model_name env)), (''temperature'', PyInt 0),
      (''provider'', PyStr (lit ''OpenAI''))]"

section \<open>Logging (backend/utils/logger.py)\<close>

text \<open>
  \<open>log_node_execution\<close> returns the log entry; \<open>model_config or {...}\<close> and
  \<open>human_decision or "N/A"\<close> replace \<open>None\<close> and the empty dictionary.
\<close>

definition log_node_execution ::
  "'w env \<Rightarrow> pystr \<Rightarrow> pydict \<Rightarrow> pydict \<Rightarrow> pystr option \<Rightarrow> pydict option
     \<Rightarrow> pydict option \<Rightarrow> 'w \<Rightarrow> log_entry \<times> 'w" where
  "log_node_execution env name ins outs prompt_text model_config decision w =
     (case now_iso env w of (ts, w1) \<Rightarrow>
        (\<lparr>node = name, timestamp = ts, inputs = ins, prompt = prompt_text, outputs = outs,
          model_settings =
            (case model_config of
               None \<Rightarrow> [(''type'', PyStr (lit ''deterministic'')), (''details'', PyStr (lit ''N/A''))]
             | Some c \<Rightarrow>
                 if c = [] then [(''type'', PyStr (lit ''deterministic'')), (''details'', PyStr (lit ''N/A''))]
                 else c),
          human_decision =
            (case decision of
               None \<Rightarrow> PyStr (lit ''N/A'')
             | Some d \<Rightarrow> if d = [] then PyStr (lit ''N/A'') else PyDict d)\<rparr>, w1))"

text \<open>\<open>state["node_logs"].append(log_node_execution(...))\<close>\<close>

definition append_log ::
  "'w env \<Rightarrow> AgentState \<Rightarrow> pystr \<Rightarrow> pydict \<Rightarrow> pydict \<Rightarrow> pystr option \<Rightarrow> pydict option
     \<Rightarrow> pydict option \<Rightarrow> 'w \<Rightarrow> AgentState \<times> 'w" where
  "append_log env state name ins outs prompt_text model_config decision w =
     (case log_node_execution env name ins outs prompt_text model_config decision w of
        (entry, w1) \<Rightarrow> (state\<lparr>node_logs := node_logs state @ [entry]\<rparr>, w1))"

definition py_len :: "'a list \<Rightarrow> pyval" where
  "py_len xs = PyInt (int (length xs))"

section \<open>The step functions (backend/nodes.py)\<close>

text \<open>
  A step function takes the state and the world and returns the state it leaves, or
  the exception that escapes it, and the next world.
\<close>

type_synonym 'w step_fun = "'w env \<Rightarrow> AgentState \<Rightarrow> 'w \<Rightarrow> (exn + AgentState) \<times> 'w"

subsection \<open>\<open>input_node\<close>\<close>

definition input_node :: "'w step_fun" where
  "input_node env state w =
     (let t = topic state;
          qs = [t @ lit '' comprehensive guide'', t @ lit '' tutorial explained'',
                t @ lit '' applications examples'', t @ lit '' latest developments 2024'',
                lit ''how does '' @ t @ lit '' work''];
          state1 = state\<lparr>search_queries := qs\<rparr>
      in case append_log env state1 (lit ''input'') [(''topic'', PyStr t)]
                [(''queries_generated'', py_len qs),
                 (''examples'', PyList (map PyStr (take 2 qs)))]
                None None None w of
           (state2, w1) \<Rightarrow> (Inr state2, w1))"

subsection \<open>\<open>search_node\<close>\<close>

definition hit_of :: "tavily_item \<Rightarrow> search_hit" where
  "hit_of r =
     \<lparr>url = field_get (item_url r) None,
      title = field_get (item_title r) None,
      snippet = field_get (item_content r) (Some []),
      raw_content = field_get (item_raw_content r) (Some []),
      score = field_get (item_score r) (Some (NumInt 0))\<rparr>"

text \<open>The loop over the queries: a query whose search raises adds nothing.\<close>

fun search_all :: "'w env \<Rightarrow> pystr list \<Rightarrow> 'w \<Rightarrow> search_hit list \<times> 'w" where
  "search_all env [] w = ([], w)"
| "search_all env (q # qs) w =
     (case tavily_search env q w of
        (Inl e, w1) \<Rightarrow> search_all env qs w1
      | (Inr items, w1) \<Rightarrow>
          (case search_all env qs w1 of (rest, w2) \<Rightarrow> (map hit_of items @ rest, w2)))"

definition search_node :: "'w step_fun" where
  "search_node env state w =
     (case search_all env (search_queries state) w of
        (results, w1) \<Rightarrow>
          (let state1 = state\<lparr>raw_search_results := results\<rparr>
           in case append_log env state1 (lit ''search'')
                     [(''queries'', PyList (map PyStr (search_queries state1)))]
                     [(''total_results'', py_len results)]
                     None (Some [(''tool'', PyStr (lit ''Tavily API''))]) None w1 of
                (state2, w2) \<Rightarrow> (Inr state2, w2)))"

subsection \<open>\<open>extract_node\<close>\<close>

text \<open>
  The context block of one search result.  \<open>result.get('raw_content', ...)[:1000]\<close>
  finds the key in every result that \<open>search_node\<close> built, and slicing \<open>None\<close> raises.
\<close>

definition source_block :: "nat \<Rightarrow> search_hit \<Rightarrow> exn + pystr" where
  "source_block idx result =
     (case raw_content result of
        None \<Rightarrow> Inl TypeError
      | Some c \<Rightarrow>
          Inr (lit ''SOURCE '' @ show_nat idx @ lit '':'' @ nl @
               lit ''Title: '' @ str_opt (title result) @ nl @
               lit ''URL: '' @ str_opt (url result) @ nl @
               lit ''Content: '' @ take 1000 c @ nl @ lit ''---''))"

fun source_blocks :: "nat \<Rightarrow> search_hit list \<Rightarrow> exn + pystr list" where
  "source_blocks idx [] = Inr []"
| "source_blocks idx (r # rs) =
     (case source_block idx r of
        Inl e \<Rightarrow> Inl e
      | Inr b \<Rightarrow> (case source_blocks (Suc idx) rs of Inl e \<Rightarrow> Inl e | Inr bs \<Rightarrow> Inr (b # bs)))"

text \<open>\<open>v.strip()\<close> on a value of a JSON object: only a string has the method.\<close>

definition strip_value :: "pyval \<Rightarrow> exn + pystr" where
  "strip_value v = (case v of PyStr s \<Rightarrow> Inr (strip s) | _ \<Rightarrow> Inl AttributeError)"

text \<open>
  One round of the loop over \<open>claims_data[:10]\<close>: the claim built from an element, or
  \<open>None\<close> for an element that is skipped.
\<close>

definition claim_of_item ::
  "'w env \<Rightarrow> pyval \<Rightarrow> 'w \<Rightarrow> (exn + ClaimWithSource option) \<times> 'w" where
  "claim_of_item env item w =
     (case item of
        PyDict claim_dict \<Rightarrow>
          (case strip_value (dict_get claim_dict ''claim'' (PyStr [])) of
             Inl e \<Rightarrow> (Inl e, w)
           | Inr claim_text \<Rightarrow>
          (case strip_value (dict_get claim_dict ''source_url'' (PyStr [])) of
             Inl e \<Rightarrow> (Inl e, w)
           | Inr src \<Rightarrow>
               if claim_text \<noteq> [] \<and> src \<noteq> [] \<and> length claim_text > 20
               then
                 (case strip_value (dict_get claim_dict ''source_title'' (PyStr [])) of
                    Inl e \<Rightarrow> (Inl e, w)
                  | Inr src_title \<Rightarrow>
                 (case strip_value (dict_get claim_dict ''excerpt'' (PyStr [])) of
                    Inl e \<Rightarrow> (Inl e, w)
                  | Inr ex \<Rightarrow>
                      (case now_iso env w of
                         (today, w1) \<Rightarrow>
                           (Inr (Some \<lparr>claim = claim_text, source_url = src,
                                       source_title = src_title, excerpt = take 400 ex,
                                       verified = False,
                                       verification_reasoning = lit ''Not yet verified'',
                                       accessed_date = today\<rparr>), w1))))
               else (Inr None, w)))
      | _ \<Rightarrow> (Inl AttributeError, w))"

fun build_claims ::
  "'w env \<Rightarrow> pyval list \<Rightarrow> 'w \<Rightarrow> (exn + ClaimWithSource list) \<times> 'w" where
  "build_claims env [] w = (Inr [], w)"
| "build_claims env (item # items) w =
     (case claim_of_item env item w of
        (Inl e, w1) \<Rightarrow> (Inl e, w1)
      | (Inr c, w1) \<Rightarrow>
          (case build_claims env items w1 of
             (Inl e, w2) \<Rightarrow> (Inl e, w2)
           | (Inr cs, w2) \<Rightarrow> (Inr ((case c of None \<Rightarrow> [] | Some x \<Rightarrow> [x]) @ cs), w2)))"

text \<open>The body of the \<open>try\<close> block: the claims, or the exception that it raised.\<close>

definition extract_claims ::
  "'w env \<Rightarrow> pystr \<Rightarrow> 'w \<Rightarrow> (exn + ClaimWithSource list) \<times> 'w" where
  "extract_claims env extraction_prompt w =
     (case llm_invoke env extraction_prompt w of
        (Inl e, w1) \<Rightarrow> (Inl e, w1)
      | (Inr response_text, w1) \<Rightarrow>
          (case json_array env response_text of
             Inl e \<Rightarrow> (Inl e, w1)
           | Inr (PyList claims_data) \<Rightarrow> build_claims env (take 10 claims_data) w1
           | Inr _ \<Rightarrow> (Inl (ValueError (lit ''Response is not a JSON array'')), w1)))"

definition extract_node :: "'w step_fun" where
  "extract_node env state w =
     (if raw_search_results state = []
      then (Inr (state\<lparr>extracted_claims := []\<rparr>), w)
      else
        (case source_blocks 1 (take 10 (raw_search_results state)) of
           Inl e \<Rightarrow> (Inl e, w)
         | Inr sources_context \<Rightarrow>
        (case format_extract env (topic state) (join (nl @ nl) sources_context) of
           Inl e \<Rightarrow> (Inl e, w)
         | Inr extraction_prompt \<Rightarrow>
        (case extract_claims env extraction_prompt w of
           (r, w1) \<Rightarrow>
             (let state1 = state\<lparr>extracted_claims := (case r of Inl e \<Rightarrow> [] | Inr cs \<Rightarrow> cs)\<rparr>
              in case append_log env state1 (lit ''extract'')
                        [(''source_count'', py_len (raw_search_results state1))]
                        [(''claims_extracted'', py_len (extracted_claims state1))]
                        (Some extraction_prompt) (Some (MODEL_CONFIG env)) None w1 of
                   (state2, w2) \<Rightarrow> (Inr state2, w2))))))"

subsection \<open>\<open>author_prioritization_node\<close>\<close>

definition authoritative_domains :: "pystr list" where
  "authoritative_domains =
     [lit ''.edu'', lit ''.gov'', lit ''.org'', lit ''arxiv.org'', lit ''ieee.org'', lit ''acm.org'',
      lit ''nature.com'', lit ''sciencedirect.com'', lit ''springer.com'',
      lit ''wikipedia.org'', lit ''research.'', lit ''scholar.'']"

definition is_authoritative :: "'w env \<Rightarrow> ClaimWithSource \<Rightarrow> bool" where
  "is_authoritative env c =
     list_ex (\<lambda>domain. contains domain (str_lower env (source_url c))) authoritative_domains"

definition author_prioritization_node :: "'w step_fun" where
  "author_prioritization_node env state w =
     (let prioritized_claims = filter (is_authoritative env) (extracted_claims state);
          regular_claims = filter (\<lambda>c. \<not> is_authoritative env c) (extracted_claims state);
          state1 = state\<lparr>extracted_claims := prioritized_claims @ regular_claims\<rparr>
      in case append_log env state1 (lit ''prioritize'')
                [(''total_claims'', py_len (extracted_claims state1))]
                [(''prioritized'', py_len prioritized_claims),
                 (''regular'', py_len regular_claims)]
                None None None w of
           (state2, w1) \<Rightarrow> (Inr state2, w1))"

subsection \<open>\<open>verification_node\<close> (with backend/utils/validator.py)\<close>

definition fetch_with_beautifulsoup :: "'w env \<Rightarrow> pystr \<Rightarrow> 'w \<Rightarrow> pystr option \<times> 'w" where
  "fetch_with_beautifulsoup env u w =
     (case http_get env u w of
        (Inl e, w1) \<Rightarrow> (None, w1)
      | (Inr (status_code, page_text), w1) \<Rightarrow>
          (if status_code \<noteq> 200 then None else Some (take 5000 page_text), w1))"

record verification =
  v_verified :: bool
  v_reasoning :: pystr
  v_excerpt :: pystr

text \<open>\<open>str(e)\<close>\<close>

fun str_exn :: "exn \<Rightarrow> pystr" where
  "str_exn IndexError = lit ''list index out of range''"
| "str_exn TypeError = lit ''TypeError''"
| "str_exn AttributeError = lit ''AttributeError''"
| "str_exn (KeyError k) = k"
| "str_exn (ValueError m) = m"
| "str_exn (External m) = m"

definition verification_prompt :: "pystr \<Rightarrow> pystr \<Rightarrow> pystr" where
  "verification_prompt claim_text source_content =
     lit ''You are a fact-checker. Analyze if the source supports the claim.'' @ nl @ nl @
     lit ''SOURCE CONTENT (truncated):'' @ nl @ take 2000 source_content @ nl @ nl @
     lit ''CLAIM:'' @ nl @ claim_text @ nl @ nl @
     lit ''TASK:'' @ nl @
     lit ''1. Does the source content support this claim?'' @ nl @
     lit ''2. If YES: Extract the most relevant excerpt (50-100 words) that supports it'' @ nl @
     lit ''3. If NO: Explain why the claim is not supported'' @ nl @ nl @
     lit ''FORMAT:'' @ nl @
     lit ''VERDICT: YES or NO'' @ nl @
     lit ''REASONING: [Your explanation]'' @ nl @
     lit ''EXCERPT: [Relevant text if YES, empty if NO]'' @ nl"

definition verify_claim_with_llm ::
  "'w env \<Rightarrow> pystr \<Rightarrow> pystr option \<Rightarrow> 'w \<Rightarrow> verification \<times> 'w" where
  "verify_claim_with_llm env claim_text source_content w =
     (case source_content of
        None \<Rightarrow>
          (\<lparr>v_verified = False, v_reasoning = lit ''Source content could not be retrieved'',
            v_excerpt = []\<rparr>, w)
      | Some sc \<Rightarrow>
          if sc = []
          then (\<lparr>v_verified = False, v_reasoning = lit ''Source content could not be retrieved'',
                 v_excerpt = []\<rparr>, w)
          else
            (case llm_invoke env (verification_prompt claim_text sc) w of
               (Inl e, w1) \<Rightarrow>
                 (\<lparr>v_verified = False, v_reasoning = lit ''Verification error: '' @ str_exn e,
                   v_excerpt = []\<rparr>, w1)
             | (Inr response_text, w1) \<Rightarrow>
                 (let verdict = contains (lit ''YES'') (str_upper env (take 100 response_text));
                      found =
                        (if contains (lit ''EXCERPT:'') response_text
                         then take 200 (strip (py_split response_text (lit ''EXCERPT:'') ! 1))
                         else [])
                  in (\<lparr>v_verified = verdict, v_reasoning = take 300 response_text,
                       v_excerpt = (if verdict then found else [])\<rparr>, w1))))"

text \<open>
  The search over \<open>raw_search_results\<close> for the content of the claim's source: the
  first result with the claim's URL and a raw content that is neither \<open>None\<close> nor empty.
\<close>

definition tavily_content :: "search_hit list \<Rightarrow> pystr \<Rightarrow> pystr option" where
  "tavily_content results u =
     (case filter (\<lambda>r. url r = Some u \<and> raw_content r \<noteq> None \<and> raw_content r \<noteq> Some [])
             results of
        [] \<Rightarrow> None
      | r # _ \<Rightarrow> raw_content r)"

text \<open>
  The source content of a round: the content that the search stored, or, when there
  is none or it has fewer than 200 characters, what fetching the URL gives.
\<close>

definition source_content_for ::
  "'w env \<Rightarrow> search_hit list \<Rightarrow> ClaimWithSource \<Rightarrow> 'w \<Rightarrow> pystr option \<times> 'w" where
  "source_content_for env results claim_obj w =
     (case tavily_content results (source_url claim_obj) of
        None \<Rightarrow> fetch_with_beautifulsoup env (source_url claim_obj) w
      | Some sc \<Rightarrow>
          if length sc < 200 then fetch_with_beautifulsoup env (source_url claim_obj) w
          else (Some sc, w))"

text \<open>
  One round of the loop over \<open>claims_to_verify\<close>.  The claim object is changed in
  place, so the result is the object as the round leaves it, and whether the round
  appended it to \<open>verified_claims\<close>.  A round with no source content goes on to the
  next claim and leaves the object as it is.
\<close>

definition verify_one ::
  "'w env \<Rightarrow> search_hit list \<Rightarrow> ClaimWithSource \<Rightarrow> 'w \<Rightarrow> (ClaimWithSource \<times> bool) \<times> 'w" where
  "verify_one env results claim_obj w =
     (case source_content_for env results claim_obj w of
        (source_content, w1) \<Rightarrow>
          if source_content = None \<or> source_content = Some []
          then ((claim_obj, False), w1)
          else
            (case verify_claim_with_llm env (claim claim_obj) source_content w1 of
               (v, w2) \<Rightarrow>
                 (let changed = claim_obj\<lparr>verified := v_verified v,
                                          verification_reasoning := v_reasoning v,
                                          excerpt := (if v_excerpt v \<noteq> [] then v_excerpt v
                                                      else excerpt claim_obj)\<rparr>
                  in ((changed, verified changed), w2))))"

text \<open>
  The loop: the claim objects as it leaves them, and \<open>verified_claims\<close>.  The elements
  of \<open>extracted_claims\<close> are distinct objects (\<open>extract_node\<close> constructs one for each).
\<close>

fun verify_claims ::
  "'w env \<Rightarrow> search_hit list \<Rightarrow> ClaimWithSource list \<Rightarrow> 'w
     \<Rightarrow> (ClaimWithSource list \<times> ClaimWithSource list) \<times> 'w" where
  "verify_claims env results [] w = (([], []), w)"
| "verify_claims env results (claim_obj # rest) w =
     (case verify_one env results claim_obj w of
        ((changed, ok), w1) \<Rightarrow>
          (case verify_claims env results rest w1 of
             ((objs, accepted), w2) \<Rightarrow>
               ((changed # objs, (if ok then [changed] else []) @ accepted), w2)))"

definition verification_node :: "'w step_fun" where
  "verification_node env state w =
     (let claims_to_verify = take 12 (extracted_claims state)
      in case verify_claims env (raw_search_results state) claims_to_verify w of
           ((objs, accepted), w1) \<Rightarrow>
             (let state1 = state\<lparr>extracted_claims := objs @ drop 12 (extracted_claims state),
                                  verified_claims := accepted\<rparr>
              in case append_log env state1 (lit ''verify'')
                        [(''total_claims'', py_len (extracted_claims state1))]
                        [(''verified'', py_len accepted)]
                        None None None w1 of
                   (state2, w2) \<Rightarrow> (Inr state2, w2)))"

subsection \<open>\<open>synthesis_node\<close>\<close>

definition few_claims_plan :: "pystr \<Rightarrow> pystr list" where
  "few_claims_plan t =
     [lit ''1. **Fundamentals of '' @ t @ lit '':** Core definitions and scope (10 mins)'',
      lit ''2. **Key Technologies:** Technical architecture and components (15 mins)'',
      lit ''3. **Current Applications:** How '' @ t @ lit '' is used in industry (15 mins)'',
      lit ''4. **Critical Analysis:** Limitations and challenges (10 mins)'',
      lit ''5. **Future Outlook:** Emerging trends and research directions (10 mins)'']"

definition fallback_plan :: "pystr \<Rightarrow> pystr list" where
  "fallback_plan t =
     [lit ''Introduction: Understanding '' @ t @ lit '' (10 minutes)'',
      lit ''Foundations: Core concepts and principles (12 minutes)'',
      lit ''Technical Deep Dive: How '' @ t @ lit '' works (15 minutes)'',
      lit ''Real-World Applications: Industry use cases (12 minutes)'',
      lit ''Challenges and Limitations: Current obstacles (8 minutes)'',
      lit ''Future Directions: Emerging trends (8 minutes)'']"

text \<open>The bullet sign U+2022.\<close>

definition bullet :: pystr where
  "bullet = [8226]"

text \<open>
  One line of the answer: stripped, matched against \<^verbatim>\<open>^\d+[\.\)]\s+\w\<close>, the
  numbering removed, and kept if more than 15 characters are left.
\<close>

definition section_of_line :: "'w env \<Rightarrow> pystr \<Rightarrow> pystr option" where
  "section_of_line env raw =
     (let line = strip raw;
          after_digits = dropWhile (is_decimal env) line
      in if takeWhile (is_decimal env) line \<noteq> [] \<and> after_digits \<noteq> []
            \<and> hd after_digits \<in> set (lit ''.)'')
         then
           (let after_mark = tl after_digits;
                cleaned = dropWhile is_space after_mark
            in if takeWhile is_space after_mark \<noteq> [] \<and> cleaned \<noteq> []
                  \<and> (is_alnum env (hd cleaned) \<or> hd cleaned = 95)
                  \<and> length cleaned > 15
               then Some cleaned else None)
         else None)"

definition parse_plan :: "'w env \<Rightarrow> pystr \<Rightarrow> pystr list" where
  "parse_plan env response_text =
     concat (map (\<lambda>l. case section_of_line env l of None \<Rightarrow> [] | Some c \<Rightarrow> [c])
                 (py_split response_text nl))"

definition synthesis_node :: "'w step_fun" where
  "synthesis_node env state w =
     (if length (verified_claims state) < 3
      then (Inr (state\<lparr>draft_plan := few_claims_plan (topic state)\<rparr>), w)
      else
        (let claims_text =
               join nl (map (\<lambda>c. bullet @ lit '' '' @ claim c) (take 15 (verified_claims state)))
         in case format_synthesize env (topic state) claims_text of
              Inl e \<Rightarrow> (Inl e, w)
            | Inr synthesis_prompt \<Rightarrow>
                (case llm_invoke env synthesis_prompt w of
                   (r, w1) \<Rightarrow>
                     (let plan = (case r of Inl e \<Rightarrow> [] | Inr response_text \<Rightarrow> parse_plan env response_text);
                          state1 =
                            (if isl r \<or> length plan < 4
                             then state\<lparr>draft_plan := fallback_plan (topic state)\<rparr>
                             else state\<lparr>draft_plan := take 7 plan\<rparr>)
                      in case append_log env state1 (lit ''synthesize'')
                                [(''verified_claims'', py_len (verified_claims state))]
                                [(''plan_sections'', py_len (draft_plan state1))]
                                (Some (take 300 synthesis_prompt)) None None w1 of
                           (state2, w2) \<Rightarrow> (Inr state2, w2)))))"

subsection \<open>\<open>hitl_plan_review\<close>\<close>

definition hitl_plan_review :: "'w step_fun" where
  "hitl_plan_review env state w =
     (case append_log env state (lit ''plan_review'')
             [(''plan_items'', py_len (draft_plan state))]
             [(''status'', PyStr (lit ''awaiting_human_review''))]
             None None None w of
        (state1, w1) \<Rightarrow> (Inr state1, w1))"

subsection \<open>\<open>refinement_node\<close>\<close>

text \<open>
  The branch on the decision.  \<open>state["draft_plan"][0]\<close> raises on an empty plan.
\<close>

definition refine_decision :: "AgentState \<Rightarrow> pyval \<Rightarrow> pystr \<Rightarrow> exn + AgentState" where
  "refine_decision state decision notes =
     (if decision = PyStr (lit ''approve'')
      then Inr (state\<lparr>refined_plan := draft_plan state, route_to := Some (lit ''fact_verification'')\<rparr>)
      else if decision = PyStr (lit ''more_sources'')
      then
        (let new_queries =
               (if notes \<noteq> []
                then [topic state @ lit '' '' @ notes,
                      topic state @ lit '' '' @ notes @ lit '' detailed'',
                      topic state @ lit '' '' @ notes @ lit '' examples'']
                else [topic state @ lit '' advanced topics'',
                      topic state @ lit '' detailed guide'',
                      topic state @ lit '' comprehensive overview''])
         in Inr (state\<lparr>search_queries := new_queries, route_to := Some (lit ''search'')\<rparr>))
      else if decision = PyStr (lit ''emphasize_topic'')
      then
        (if notes \<noteq> []
         then
           (case draft_plan state of
              [] \<Rightarrow> Inl IndexError
            | first # others \<Rightarrow>
                Inr (state\<lparr>refined_plan :=
                               [first] @ [lit ''Special Focus: '' @ notes @ lit '' (15 minutes)''] @ others,
                            route_to := Some (lit ''fact_verification'')\<rparr>))
         else Inr (state\<lparr>refined_plan := draft_plan state,
                         route_to := Some (lit ''fact_verification'')\<rparr>))
      else if decision = PyStr (lit ''rework'')
      then Inr (state\<lparr>refinement_notes := notes, route_to := Some (lit ''synthesize'')\<rparr>)
      else Inr (state\<lparr>refined_plan := draft_plan state, route_to := Some (lit ''fact_verification'')\<rparr>))"

definition refinement_node :: "'w step_fun" where
  "refinement_node env state w =
     (let feedback = (case human_feedback state of None \<Rightarrow> [] | Some fb \<Rightarrow> fb);
          decision = dict_get feedback ''decision'' (PyStr [])
      in case strip_value (dict_get feedback ''notes'' (PyStr [])) of
           Inl e \<Rightarrow> (Inl e, w)
         | Inr notes \<Rightarrow>
             (case refine_decision state decision notes of
                Inl e \<Rightarrow> (Inl e, w)
              | Inr state1 \<Rightarrow>
                  (case route_to state1 of
                     None \<Rightarrow> (Inl (KeyError (lit ''route_to'')), w)
                   | Some r \<Rightarrow>
                       (case append_log env state1 (lit ''refine'')
                               [(''decision'', decision)] [(''route_to'', PyStr r)]
                               None None (Some feedback) w of
                          (state2, w1) \<Rightarrow> (Inr state2, w1)))))"

subsection \<open>\<open>hitl_fact_verification\<close>\<close>

definition hitl_fact_verification :: "'w step_fun" where
  "hitl_fact_verification env state w =
     (let key_claims = take 6 (verified_claims state)
      in case append_log env state (lit ''fact_verification'')
                [(''claims_presented'', py_len key_claims)]
                [(''status'', PyStr (lit ''awaiting_human_verification''))]
                None None None w of
           (state1, w1) \<Rightarrow> (Inr state1, w1))"

subsection \<open>\<open>final_brief_node\<close>\<close>

definition fallback_content :: "pystr \<Rightarrow> pyval" where
  "fallback_content t =
     PyDict [(''executive_summary'', PyStr (lit ''Overview of '' @ t @ lit ''.'')),
             (''sections'', PyList []),
             (''risks'', PyList [PyStr (lit ''Complexity in implementing '' @ t),
                                 PyStr (lit ''Scalability challenges for '' @ t @ lit '' systems''),
                                 PyStr (lit ''High resource requirements for deployment'')])]"

text \<open>The \<open>try\<close> block: the content that the model answered, or the fallback.\<close>

definition generate_content :: "'w env \<Rightarrow> pystr \<Rightarrow> pystr \<Rightarrow> 'w \<Rightarrow> pyval \<times> 'w" where
  "generate_content env t content_prompt w =
     (case llm_invoke env content_prompt w of
        (Inl e, w1) \<Rightarrow> (fallback_content t, w1)
      | (Inr response_text, w1) \<Rightarrow>
          (case json_object env response_text of
             Inl e \<Rightarrow> (fallback_content t, w1)
           | Inr detailed_content \<Rightarrow> (detailed_content, w1)))"

text \<open>
  The bibliography loop, with the URLs seen so far.  The date conversion is outside every
  \<open>try\<close>, so a date that does not parse ends the node.
\<close>

fun bibliography ::
  "'w env \<Rightarrow> pystr list \<Rightarrow> ClaimWithSource list \<Rightarrow> 'w \<Rightarrow> (exn + reading list) \<times> 'w" where
  "bibliography env seen_urls [] w = (Inr [], w)"
| "bibliography env seen_urls (c # cs) w =
     (if source_url c \<in> set seen_urls then bibliography env seen_urls cs w
      else
        (case (if accessed_date c \<noteq> [] then (accessed_date c, w) else now_iso env w) of
           (accessed_date_str, w1) \<Rightarrow>
             (case strftime_date env accessed_date_str of
                Inl e \<Rightarrow> (Inl e, w1)
              | Inr d \<Rightarrow>
                  (case bibliography env (source_url c # seen_urls) cs w1 of
                     (Inl e, w2) \<Rightarrow> (Inl e, w2)
                   | (Inr rest, w2) \<Rightarrow>
                       (Inr (\<lparr>reading_title = source_title c, reading_url = source_url c,
                               accessed = d\<rparr> # rest), w2)))))"

text \<open>\<open>detailed_content.get(key, default)\<close>: only a dictionary has the method.\<close>

definition content_get :: "pyval \<Rightarrow> string \<Rightarrow> pyval \<Rightarrow> exn + pyval" where
  "content_get v k dflt = (case v of PyDict d \<Rightarrow> Inr (dict_get d k dflt) | _ \<Rightarrow> Inl AttributeError)"

text \<open>\<open>state.get("refined_plan") or state["draft_plan"]\<close>\<close>

definition current_plan :: "AgentState \<Rightarrow> pystr list" where
  "current_plan state = (if refined_plan state \<noteq> [] then refined_plan state else draft_plan state)"

definition brief_claims_text :: "AgentState \<Rightarrow> pystr" where
  "brief_claims_text state =
     join nl (map (\<lambda>c. (lit ''- '') @ claim c @ lit '' (Source: '' @ source_title c @ lit '')'')
                  (take 25 (verified_claims state)))"

definition findings_of :: "AgentState \<Rightarrow> key_finding list" where
  "findings_of state =
     map (\<lambda>c. \<lparr>finding = claim c, citation = [], source = source_title c,
                finding_url = source_url c, finding_excerpt = excerpt c\<rparr>)
         (take 6 (verified_claims state))"

text \<open>
  The three reads of \<open>detailed_content\<close> in the dictionary of the brief: the summary,
  the sections and the risks.
\<close>

definition content_parts :: "pyval \<Rightarrow> pystr \<Rightarrow> exn + pyval \<times> pyval \<times> pyval" where
  "content_parts detailed_content t =
     (case content_get detailed_content ''executive_summary''
             (PyStr (lit ''A comprehensive guide to '' @ t @ lit ''.'')) of
        Inl e \<Rightarrow> Inl e
      | Inr the_summary \<Rightarrow>
          (case content_get detailed_content ''sections'' (PyList []) of
             Inl e \<Rightarrow> Inl e
           | Inr the_sections \<Rightarrow>
               (case content_get detailed_content ''risks'' (PyList []) of
                  Inl e \<Rightarrow> Inl e
                | Inr the_risks \<Rightarrow> Inr (the_summary, the_sections, the_risks))))"

definition build_brief ::
  "'w env \<Rightarrow> AgentState \<Rightarrow> reading list \<Rightarrow> pyval \<times> pyval \<times> pyval \<Rightarrow> pystr \<Rightarrow> brief" where
  "build_brief env state books parts today =
     \<lparr>brief_title = lit ''Comprehensive Lecture Plan: '' @ str_title env (topic state),
      introduction =
        lit ''Generated lecture plan for '' @ topic state @ lit '' based on '' @
        show_nat (length (verified_claims state)) @ lit '' verified sources.'',
      summary = fst parts,
      lecture_plan = current_plan state,
      lecture_sections = fst (snd parts),
      key_findings = findings_of state,
      risks = snd (snd parts),
      further_reading = take 10 books,
      appendix =
        \<lparr>node_trace = map node (node_logs state),
         research_date = today,
         sources_analyzed = length (raw_search_results state),
         claims_extracted = length (extracted_claims state),
         claims_verified = length (verified_claims state)\<rparr>\<rparr>"

definition final_brief_node :: "'w step_fun" where
  "final_brief_node env state w =
     (case format_content env (topic state) (brief_claims_text state)
             (join nl (current_plan state)) of
        Inl e \<Rightarrow> (Inl e, w)
      | Inr content_prompt \<Rightarrow>
          (case generate_content env (topic state) content_prompt w of
             (detailed_content, w1) \<Rightarrow>
               (case bibliography env [] (verified_claims state) w1 of
                  (Inl e, w2) \<Rightarrow> (Inl e, w2)
                | (Inr books, w2) \<Rightarrow>
                    (case content_parts detailed_content (topic state) of
                       Inl e \<Rightarrow> (Inl e, w2)
                     | Inr parts \<Rightarrow>
                         (case now_pretty env w2 of
                            (today, w3) \<Rightarrow>
                              (case append_log env
                                      (state\<lparr>final_brief :=
                                                Some (build_brief env state books parts today)\<rparr>)
                                      (lit ''final_brief'')
                                      [(''plan_sections'', py_len (current_plan state))]
                                      [(''brief_generated'', PyBool True)]
                                      (Some content_prompt) (Some (MODEL_CONFIG env)) None w3 of
                                 (state2, w4) \<Rightarrow> (Inr state2, w4)))))))"

section \<open>The compiled graph\<close>

text \<open>The table of \<open>add_node\<close> calls in \<open>build_graph\<close>.\<close>

fun step :: "node \<Rightarrow> 'w step_fun" where
  "step Input = input_node"
| "step Search = search_node"
| "step Extract = extract_node"
| "step Prioritize = author_prioritization_node"
| "step Verify = verification_node"
| "step Synthesize = synthesis_node"
| "step Plan_review = hitl_plan_review"
| "step Refine = refinement_node"
| "step Fact_verification = hitl_fact_verification"
| "step Final_brief = final_brief_node"

text \<open>\<open>interrupt_before\<close>, as \<open>graph.compile\<close> is given it in backend/main.py.\<close>

definition interrupt_before :: "node list" where
  "interrupt_before = [Plan_review, Fact_verification]"

text \<open>
  A checkpoint is the latest state of a thread and the node that runs next (\<open>None\<close>: the
  thread has reached \<open>END\<close>); the store maps a thread id to its checkpoint.
\<close>

record checkpoint =
  cp_values :: AgentState
  cp_next :: "node option"

type_synonym store = "string \<Rightarrow> checkpoint option"

datatype outcome = Completed AgentState | Interrupted node AgentState

fun outcome_state :: "outcome \<Rightarrow> AgentState" where
  "outcome_state (Completed s) = s"
| "outcome_state (Interrupted n s) = s"

text \<open>
  What a run of the engine leaves: its result, the store, the nodes whose step
  function it called, in order, and the world.
\<close>

record 'w run =
  result :: "engine_error + outcome"
  stored :: store
  executed :: "node list"
  world :: 'w

text \<open>
  The bound on the number of steps that are left, for the termination of the loop:
  every cycle of the graph passes \<open>plan_review\<close>, where a run stops.
\<close>

fun steps_left :: "bool \<Rightarrow> node option \<Rightarrow> nat" where
  "steps_left resuming None = 0"
| "steps_left resuming (Some Plan_review) = (if resuming then 7 else 0)"
| "steps_left resuming (Some Fact_verification) = (if resuming then 2 else 0)"
| "steps_left resuming (Some Final_brief) = 1"
| "steps_left resuming (Some Synthesize) = 1"
| "steps_left resuming (Some Verify) = 2"
| "steps_left resuming (Some Prioritize) = 3"
| "steps_left resuming (Some Extract) = 4"
| "steps_left resuming (Some Search) = 5"
| "steps_left resuming (Some Input) = 6"
| "steps_left resuming (Some Refine) = 6"

lemma steps_left_decreases:
  assumes "next_node current state = Inr next_one"
    and "\<not> (current \<in> set interrupt_before \<and> \<not> resuming)"
  shows "steps_left False next_one < steps_left resuming (Some current)"
  using assms
  by (cases current)
     (auto simp: interrupt_before_def follow_def plan_review_paths_def refine_paths_def
           split: option.splits if_splits)

text \<open>
  Modelled from the spec: the loop of \<open>advance\<close> (section 4.2), which in the source is
  \<open>compiled_graph.invoke\<close> of the graph library.  \<open>resuming\<close> holds in the first round of
  a run that continues from a checkpoint, where the interrupt test is skipped.  A run
  stops at \<open>END\<close>; it stops before an interrupt node and persists the checkpoint; a step
  that raises ends the run and leaves the last checkpoint; otherwise the step's
  state and the next node are persisted and the loop goes on.
\<close>

function advance_loop ::
  "'w env \<Rightarrow> string \<Rightarrow> bool \<Rightarrow> AgentState \<Rightarrow> node option \<Rightarrow> store \<Rightarrow> node list \<Rightarrow> 'w
     \<Rightarrow> 'w run" where
  "advance_loop env thread_id resuming state None st called w =
     \<lparr>result = Inr (Completed state), stored = st, executed = called, world = w\<rparr>"
| "advance_loop env thread_id resuming state (Some current) st called w =
     (if current \<in> set interrupt_before \<and> \<not> resuming
      then \<lparr>result = Inr (Interrupted current state),
            stored = st(thread_id \<mapsto> \<lparr>cp_values = state, cp_next = Some current\<rparr>),
            executed = called, world = w\<rparr>
      else
        (case step current env state w of
           (Inl e, w1) \<Rightarrow>
             \<lparr>result = Inl (StepFailed e), stored = st, executed = called @ [current], world = w1\<rparr>
         | (Inr new_state, w1) \<Rightarrow>
             (case next_node current new_state of
                Inl e \<Rightarrow>
                  \<lparr>result = Inl e, stored = st, executed = called @ [current], world = w1\<rparr>
              | Inr next_one \<Rightarrow>
                  advance_loop env thread_id False new_state next_one
                    (st(thread_id \<mapsto> \<lparr>cp_values = new_state, cp_next = next_one\<rparr>))
                    (called @ [current]) w1)))"
  by pat_completeness auto
termination
proof (relation "measure (\<lambda>(env, thread_id, resuming, state, pending, st, called, w).
                            steps_left resuming pending)", goal_cases)
  case 1
  show ?case by simp
next
  case 2
  then show ?case by (simp add: steps_left_decreases)
qed

text \<open>
  Modelled from the spec: \<open>advance\<close> (\<open>compiled_graph.invoke(input, config)\<close>).  With a
  starting state it begins a thread at the entry node; with none it continues from
  the thread's checkpoint and fails if there is none.
\<close>

definition advance :: "'w env \<Rightarrow> string \<Rightarrow> AgentState option \<Rightarrow> store \<Rightarrow> 'w \<Rightarrow> 'w run" where
  "advance env thread_id starting st w =
     (case starting of
        Some state \<Rightarrow>
          advance_loop env thread_id False state (Some entry_point)
            (st(thread_id \<mapsto> \<lparr>cp_values = state, cp_next = Some entry_point\<rparr>)) [] w
      | None \<Rightarrow>
          (case st thread_id of
             None \<Rightarrow> \<lparr>result = Inl ThreadNotFound, stored = st, executed = [], world = w\<rparr>
           | Some cp \<Rightarrow> advance_loop env thread_id True (cp_values cp) (cp_next cp) st [] w))"

text \<open>
  Modelled from the spec: the checkpoint store read by \<open>compiled_graph.get_state\<close> and
  written by \<open>compiled_graph.update_state\<close>, which replaces the state of the
  checkpoint and keeps its pending node.
\<close>

definition get_state :: "store \<Rightarrow> string \<Rightarrow> checkpoint option" where
  "get_state st thread_id = st thread_id"

definition update_state :: "store \<Rightarrow> string \<Rightarrow> AgentState \<Rightarrow> store" where
  "update_state st thread_id state =
     (case st thread_id of
        None \<Rightarrow> st
      | Some cp \<Rightarrow> st(thread_id \<mapsto> cp\<lparr>cp_values := state\<rparr>))"

section \<open>The endpoints (backend/main.py)\<close>

text \<open>
  \<open>HTTPException(status_code=404, detail="Session not found")\<close> and
  \<open>HTTPException(status_code=500, detail=str(e))\<close>.
\<close>

datatype http_exception = Not_found | Server_error engine_error

text \<open>
  The three dictionaries that the endpoints return: \<open>thread_id\<close>, \<open>checkpoint\<close> and
  \<open>data\<close> with status \<open>interrupted\<close>; \<open>thread_id\<close>, \<open>final_brief\<close> and \<open>data\<close> with
  status \<open>completed\<close>; and the answer of \<open>/status\<close> with \<open>thread_id\<close>, \<open>status\<close>,
  \<open>checkpoint\<close> and \<open>data\<close>.
\<close>

datatype response =
    Interrupted_reply string pystr AgentState
  | Completed_reply string "brief option" AgentState
  | Status_reply string pystr "pystr option" AgentState

text \<open>
  What a request leaves: the reply, the store, the nodes whose step function the
  request's run called, and the world.
\<close>

record 'w served =
  reply :: "http_exception + response"
  store_after :: store
  steps_run :: "node list"
  world_after :: 'w

definition initial_state :: "pystr \<Rightarrow> AgentState" where
  "initial_state request_topic =
     \<lparr>topic = request_topic,
      search_queries = [],
      raw_search_results = [],
      extracted_claims = [],
      draft_plan = [],
      human_feedback = Some [],
      refined_plan = [],
      verified_claims = [],
      final_brief = None,
      node_logs = [],
      messages = [],
      route_to = Some (lit ''fact_verification''),
      refinement_notes = []\<rparr>"

text \<open>
  \<open>start_research\<close>, after \<open>compiled_graph.invoke(initial_state, config)\<close>: an
  exception becomes status 500; otherwise the reply names the pending node of the
  stored checkpoint (\<open>"unknown"\<close> if there is none) with status \<open>interrupted\<close>.
\<close>

definition start_reply :: "string \<Rightarrow> 'w run \<Rightarrow> 'w served" where
  "start_reply thread_id r =
     \<lparr>reply =
        (case result r of
           Inl e \<Rightarrow> Inl (Server_error e)
         | Inr out \<Rightarrow>
             Inr (Interrupted_reply thread_id
                    (case get_state (stored r) thread_id of
                       None \<Rightarrow> lit ''unknown''
                     | Some snapshot \<Rightarrow>
                         (case cp_next snapshot of None \<Rightarrow> lit ''unknown'' | Some n \<Rightarrow> node_name n))
                    (outcome_state out))),
      store_after = stored r, steps_run = executed r, world_after = world r\<rparr>"

text \<open>The thread id is the fresh \<open>uuid4\<close> that the request draws.\<close>

definition start_research :: "'w env \<Rightarrow> string \<Rightarrow> pystr \<Rightarrow> store \<Rightarrow> 'w \<Rightarrow> 'w served" where
  "start_research env thread_id request_topic st w =
     start_reply thread_id (advance env thread_id (Some (initial_state request_topic)) st w)"

text \<open>
  \<open>resume_research\<close>, after \<open>compiled_graph.invoke(None, config)\<close>: an exception becomes
  status 500; otherwise the reply is \<open>interrupted\<close> at the pending node of the stored
  checkpoint, or \<open>completed\<close> if there is none.
\<close>

definition resume_reply :: "string \<Rightarrow> 'w run \<Rightarrow> 'w served" where
  "resume_reply thread_id r =
     \<lparr>reply =
        (case result r of
           Inl e \<Rightarrow> Inl (Server_error e)
         | Inr out \<Rightarrow>
             (case (case get_state (stored r) thread_id of
                      None \<Rightarrow> None | Some final_state \<Rightarrow> cp_next final_state) of
                Some next_checkpoint \<Rightarrow>
                  Inr (Interrupted_reply thread_id (node_name next_checkpoint) (outcome_state out))
              | None \<Rightarrow>
                  Inr (Completed_reply thread_id (final_brief (outcome_state out))
                         (outcome_state out)))),
      store_after = stored r, steps_run = executed r, world_after = world r\<rparr>"

text \<open>
  The feedback record that \<open>resume_research\<close> writes; \<open>notes\<close> is \<open>Optional[str]\<close> in
  \<open>FeedbackRequest\<close>.
\<close>

definition feedback_record :: "pystr \<Rightarrow> pystr option \<Rightarrow> pystr \<Rightarrow> pydict" where
  "feedback_record decision notes current_checkpoint =
     [(''decision'', PyStr decision),
      (''notes'', (case notes of None \<Rightarrow> PyNone | Some n \<Rightarrow> PyStr n)),
      (''checkpoint'', PyStr current_checkpoint)]"

definition resume_research ::
  "'w env \<Rightarrow> string \<Rightarrow> pystr \<Rightarrow> pystr option \<Rightarrow> store \<Rightarrow> 'w \<Rightarrow> 'w served" where
  "resume_research env thread_id decision notes st w =
     (case get_state st thread_id of
        None \<Rightarrow> \<lparr>reply = Inl Not_found, store_after = st, steps_run = [], world_after = w\<rparr>
      | Some state_snapshot \<Rightarrow>
          (let current_checkpoint =
                 (case cp_next state_snapshot of None \<Rightarrow> lit ''none'' | Some n \<Rightarrow> node_name n);
               updated_state =
                 (cp_values state_snapshot)
                   \<lparr>human_feedback := Some (feedback_record decision notes current_checkpoint)\<rparr>
           in resume_reply thread_id
                (advance env thread_id None (update_state st thread_id updated_state) w)))"

text \<open>\<open>get_status\<close>; it returns the store as it leaves it.\<close>

definition get_status :: "store \<Rightarrow> string \<Rightarrow> (http_exception + response) \<times> store" where
  "get_status st thread_id =
     (case get_state st thread_id of
        None \<Rightarrow> (Inl Not_found, st)
      | Some state \<Rightarrow>
          (Inr (Status_reply thread_id
                  (if cp_next state = None then lit ''completed'' else lit ''interrupted'')
                  (map_option node_name (cp_next state))
                  (cp_values state)), st))"

section \<open>Environments for running the pipeline\<close>

text \<open>
  The world is a counter that every call to the outside advances.  In \<open>offline\<close> the
  search service, the language model and the network raise; in \<open>agreeable\<close> the page of
  a source is served and the language model answers every prompt with a verdict
  \<open>YES\<close>; in \<open>doubtful\<close> the page is served and the verdict is always \<open>NO\<close>.

  The case mappings of these environments are Python's on ASCII text, which is all
  that the runs below hold; so are their digit and word characters.
\<close>

definition ascii_lower :: "pystr \<Rightarrow> pystr" where
  "ascii_lower s = map (\<lambda>c. if 65 \<le> c \<and> c \<le> 90 then c + 32 else c) s"

definition ascii_upper :: "pystr \<Rightarrow> pystr" where
  "ascii_upper s = map (\<lambda>c. if 97 \<le> c \<and> c \<le> 122 then c - 32 else c) s"

fun ascii_title_from :: "bool \<Rightarrow> pystr \<Rightarrow> pystr" where
  "ascii_title_from after_letter [] = []"
| "ascii_title_from after_letter (c # cs) =
     (if (65 \<le> c \<and> c \<le> 90) \<or> (97 \<le> c \<and> c \<le> 122)
      then (if after_letter then (if c \<le> 90 then c + 32 else c)
            else (if 97 \<le> c then c - 32 else c)) # ascii_title_from True cs
      else c # ascii_title_from False cs)"

definition ascii_digit :: "int \<Rightarrow> bool" where
  "ascii_digit c = (48 \<le> c \<and> c \<le> 57)"

definition ascii_alnum :: "int \<Rightarrow> bool" where
  "ascii_alnum c = ((48 \<le> c \<and> c \<le> 57) \<or> (65 \<le> c \<and> c \<le> 90) \<or> (97 \<le> c \<and> c \<le> 122))"

definition offline :: "nat env" where
  "offline =
     \<lparr>model_name = lit ''gpt-4o-mini'',
      now_iso = (\<lambda>w. (show_nat w, Suc w)),
      now_pretty = (\<lambda>w. (show_nat w, Suc w)),
      strftime_date = (\<lambda>s. Inr s),
      tavily_search = (\<lambda>q w. (Inl (External (lit ''no network'')), Suc w)),
      llm_invoke = (\<lambda>p w. (Inl (External (lit ''no network'')), Suc w)),
      http_get = (\<lambda>u w. (Inl (External (lit ''no network'')), Suc w)),
      format_extract = (\<lambda>t c. Inr (t @ c)),
      format_synthesize = (\<lambda>t c. Inr (t @ c)),
      format_content = (\<lambda>t c p. Inr (t @ c @ p)),
      json_array = (\<lambda>s. Inl (ValueError (lit ''no JSON''))),
      json_object = (\<lambda>s. Inl (ValueError (lit ''no JSON''))),
      str_lower = ascii_lower,
      str_upper = ascii_upper,
      str_title = ascii_title_from False,
      is_decimal = ascii_digit,
      is_alnum = ascii_alnum\<rparr>"




definition drafted :: AgentState where
  "drafted = (initial_state (lit ''ai''))\<lparr>draft_plan := few_claims_plan (lit ''ai'')\<rparr>"

text \<open>
  A thread through its life while the outside is unreachable: started (it stops before
  \<open>plan_review\<close>), approved (it stops before \<open>fact_verification\<close>), approved again
  (it reaches \<open>END\<close>).
\<close>

definition parked :: "nat run" where
  "parked = advance offline ''t1'' (Some (initial_state (lit ''ai''))) Map.empty 0"

definition approved :: "nat served" where
  "approved =
     (let r = parked
      in resume_research offline ''t1'' (lit ''approve'') (Some []) (stored r) (world r))"

definition finished :: "nat served" where
  "finished =
     (let r = approved
      in resume_research offline ''t1'' (lit ''approve'') (Some []) (store_after r)
           (world_after r))"

text \<open>Feedback sent to the thread after it has reached \<open>END\<close>.\<close>

definition reopened :: "nat served" where
  "reopened =
     (let r = finished
      in resume_research offline ''t1'' (lit ''rework'') (Some (lit ''more'')) (store_after r)
           (world_after r))"

section \<open>Literals\<close>

text \<open>Two literals are the same string exactly when their texts are the same.\<close>

lemma lit_eq [simp]: "lit a = lit b \<longleftrightarrow> a = b"
proof -
  have "inj (of_char :: char \<Rightarrow> int)"
    by (rule injI) simp
  then show ?thesis
    by (simp add: lit_def inj_map_eq_map)
qed

lemma lit_Nil [simp]: "lit s = [] \<longleftrightarrow> s = []" "[] = lit s \<longleftrightarrow> s = []"
  by (auto simp: lit_def)

section \<open>Routers\<close>

text \<open>
  C3.  Router A is a function of the decision stored in the human feedback record: it
  answers \<open>fact_verification\<close> exactly when the record is present and its decision is
  the string \<open>approve\<close>, and \<open>refine\<close> in every other case, among them a state with no
  feedback record and a record with no decision.  It has no failing branch, and its
  answer is always a key of the path map, so the engine never reports a routing error
  after \<open>plan_review\<close>.
\<close>

theorem route_after_plan_review_total:
  "route_after_plan_review state =
     (if \<exists>fb. human_feedback state = Some fb \<and> map_of fb ''decision'' = Some (PyStr (lit ''approve''))
      then lit ''fact_verification'' else lit ''refine'')
   \<and> next_node Plan_review state =
     (if route_after_plan_review state = lit ''fact_verification''
      then Inr (Some Fact_verification) else Inr (Some Refine))"
  by (auto simp: route_after_plan_review_def dict_get_def follow_def plan_review_paths_def
      split: option.splits)

text \<open>
  C4.  As the claim states it, Router B would answer \<open>fact_verification\<close> for a
  \<open>route_to\<close> outside the three legal values.  It does not: for the value \<open>archive\<close>
  it answers \<open>archive\<close>.
\<close>

theorem route_after_refine_counterexample:
  "(lit ''archive'') \<notin> {lit ''search'', lit ''synthesize'', lit ''fact_verification''}
   \<and> route_to ((initial_state (lit ''ai''))\<lparr>route_to := Some (lit ''archive'')\<rparr>) = Some (lit ''archive'')
   \<and> route_after_refine ((initial_state (lit ''ai''))\<lparr>route_to := Some (lit ''archive'')\<rparr>)
       \<noteq> (lit ''fact_verification'')"
  by (simp add: route_after_refine_def)

text \<open>
  C4, amended.  Router B answers \<open>fact_verification\<close> when the state has no \<open>route_to\<close>,
  and the value of \<open>route_to\<close> whenever the state has one, legal or not.  The engine
  follows a legal answer to its node; an answer outside the three legal values is not
  replaced by a default but has no entry in the path map, so routing fails.
\<close>

theorem route_after_refine_lookup:
  "(route_to state = None \<longrightarrow>
      route_after_refine state = lit ''fact_verification''
      \<and> next_node Refine state = Inr (Some Fact_verification))
   \<and> (\<forall>r. route_to state = Some r \<longrightarrow>
        route_after_refine state = r
        \<and> next_node Refine state =
            (if r = lit ''search'' then Inr (Some Search)
             else if r = lit ''synthesize'' then Inr (Some Synthesize)
             else if r = lit ''fact_verification'' then Inr (Some Fact_verification)
             else Inl (RoutingError r)))"
  by (auto simp: route_after_refine_def follow_def refine_paths_def)

theorem route_after_refine_lookup_witness:
  "route_after_refine ((initial_state (lit ''ai''))\<lparr>route_to := Some (lit ''synthesize'')\<rparr>) = lit ''synthesize''
   \<and> next_node Refine ((initial_state (lit ''ai''))\<lparr>route_to := Some (lit ''synthesize'')\<rparr>)
       = Inr (Some Synthesize)"
  using route_after_refine_lookup [of "(initial_state (lit ''ai''))\<lparr>route_to := Some (lit ''synthesize'')\<rparr>"]
  by (simp add: route_after_refine_def)

section \<open>Starting a run\<close>

text \<open>
  C7.  The state that \<open>start_research\<close> builds for a topic has that topic, every list
  empty, an empty feedback record and \<open>route_to\<close> set to \<open>fact_verification\<close>, and it is
  the state that the engine is started with, at the entry node.
\<close>

theorem start_research_initial_state:
  "topic (initial_state t) = t
   \<and> search_queries (initial_state t) = []
   \<and> raw_search_results (initial_state t) = []
   \<and> extracted_claims (initial_state t) = []
   \<and> draft_plan (initial_state t) = []
   \<and> refined_plan (initial_state t) = []
   \<and> verified_claims (initial_state t) = []
   \<and> node_logs (initial_state t) = []
   \<and> messages (initial_state t) = []
   \<and> human_feedback (initial_state t) = Some []
   \<and> route_to (initial_state t) = Some (lit ''fact_verification'')
   \<and> start_research env thread_id t st w =
       start_reply thread_id
         (advance_loop env thread_id False (initial_state t) (Some Input)
            (st(thread_id \<mapsto> \<lparr>cp_values = initial_state t, cp_next = Some Input\<rparr>)) [] w)"
  by (simp add: initial_state_def start_research_def advance_def entry_point_def)

section \<open>Reading the status\<close>

lemma get_status_store: "snd (get_status st thread_id) = st"
  by (simp add: get_status_def split: option.splits)

text \<open>
  C8.  \<open>get_status\<close> leaves the store as it found it, and so does any number of calls in
  a row; the call after them answers what the first call answers: the same status,
  checkpoint name and state, or the same error.
\<close>

theorem get_status_idempotent:
  "snd (get_status st thread_id) = st
   \<and> ((\<lambda>s. snd (get_status s thread_id)) ^^ n) st = st
   \<and> fst (get_status (((\<lambda>s. snd (get_status s thread_id)) ^^ n) st) thread_id)
       = fst (get_status st thread_id)"
proof -
  have same: "((\<lambda>s. snd (get_status s thread_id)) ^^ n) st = st"
    by (induction n) (simp_all add: get_status_store)
  show ?thesis
    using same by (simp add: get_status_store)
qed

section \<open>Log entries\<close>

lemma offline_start_executed:
  "executed (advance offline ''t1'' (Some (initial_state (lit ''ai''))) Map.empty 0)
     = [Input, Search, Extract, Prioritize, Verify, Synthesize]"
  by code_simp

lemma offline_start_logged:
  "map node (node_logs (outcome_state (projr
      (result (advance offline ''t1'' (Some (initial_state (lit ''ai''))) Map.empty 0)))))
     = [lit ''input'', lit ''search'', lit ''prioritize'', lit ''verify'']"
  by code_simp

text \<open>
  C5.  Two step functions return without a log entry.  \<open>extract_node\<close>, given no search
  results, returns the state with its log as it was, and so does \<open>synthesis_node\<close>,
  given fewer than three verified claims.  A run that starts while the search service
  is down calls six step functions and leaves four log entries.
\<close>

theorem steps_without_log_entry:
  "extract_node env (state\<lparr>raw_search_results := []\<rparr>) w
     = (Inr (state\<lparr>raw_search_results := [], extracted_claims := []\<rparr>), w)
   \<and> node_logs (state\<lparr>raw_search_results := [], extracted_claims := []\<rparr>) = node_logs state
   \<and> synthesis_node env (state\<lparr>verified_claims := []\<rparr>) w
     = (Inr (state\<lparr>verified_claims := [], draft_plan := few_claims_plan (topic state)\<rparr>), w)
   \<and> node_logs (state\<lparr>verified_claims := [], draft_plan := few_claims_plan (topic state)\<rparr>)
     = node_logs state
   \<and> executed (advance offline ''t1'' (Some (initial_state (lit ''ai''))) Map.empty 0)
     = [Input, Search, Extract, Prioritize, Verify, Synthesize]
   \<and> map node (node_logs (outcome_state (projr
        (result (advance offline ''t1'' (Some (initial_state (lit ''ai''))) Map.empty 0)))))
     = [lit ''input'', lit ''search'', lit ''prioritize'', lit ''verify'']"
  by (simp add: extract_node_def synthesis_node_def offline_start_executed offline_start_logged)

section \<open>The verify step\<close>












section \<open>The refine step\<close>

lemma refine_decision_route:
  assumes "refine_decision state decision notes = Inr s1"
  shows "route_to s1
           \<in> {Some (lit ''search''), Some (lit ''synthesize''), Some (lit ''fact_verification'')}"
  using assms
  by (auto simp: refine_decision_def Let_def split: if_splits list.splits)

text \<open>Whenever \<open>refinement_node\<close> returns, \<open>route_to\<close> is one of the three legal values.\<close>

lemma refine_route_legal:
  assumes "refinement_node env state w = (Inr state', w')"
  shows "route_to state'
           \<in> {Some (lit ''search''), Some (lit ''synthesize''), Some (lit ''fact_verification'')}"
  using assms refine_decision_route
  by (fastforce simp: refinement_node_def Let_def append_log_def
           split: prod.splits sum.splits option.splits)

lemma null_notes_raise:
  "fst (refinement_node offline
          (drafted\<lparr>human_feedback :=
                     Some (feedback_record (lit ''rework'') None (lit ''plan_review''))\<rparr>) 0)
     = Inl AttributeError"
  by code_simp

lemma null_notes_reply:
  "reply (resume_research offline ''t1'' (lit ''rework'') None (stored parked) (world parked))
     = Inl (Server_error (StepFailed AttributeError))"
  by code_simp

lemma null_notes_steps:
  "steps_run (resume_research offline ''t1'' (lit ''rework'') None (stored parked) (world parked))
     = [Plan_review, Refine]"
  by code_simp

lemma absent_notes_route:
  "route_to (projr (fst (refinement_node offline
       (drafted\<lparr>human_feedback := Some [(''decision'', PyStr (lit ''rework''))]\<rparr>) 0)))
     = Some (lit ''synthesize'')"
  by code_simp

text \<open>
  Notes that are blank in Python are blank here: with notes of one no-break space
  (U+00A0) and an empty plan, \<open>emphasize_topic\<close> takes the branch for empty notes and
  returns.
\<close>

lemma blank_notes_return:
  "route_to (projr (fst (refinement_node offline
       ((initial_state (lit ''ai''))
          \<lparr>human_feedback :=
             Some (feedback_record (lit ''emphasize_topic'') (Some [160])
                     (lit ''plan_review''))\<rparr>) 0)))
     = Some (lit ''fact_verification'')"
  by code_simp

text \<open>
  C10.  \<open>refinement_node\<close> does not return a state for every input state.  When the
  feedback record holds \<open>None\<close> as its notes (the request body
  \<open>{"decision": "rework", "notes": null}\<close>), \<open>feedback.get("notes", "").strip()\<close>
  raises: no state is returned, and the request that resumed the thread ends with
  status 500 after calling \<open>plan_review\<close> and \<open>refine\<close>.  The same feedback without the
  \<open>notes\<close> key is handled: the node returns with \<open>route_to\<close> set to \<open>synthesize\<close>.
\<close>

theorem refinement_node_null_notes:
  "fst (refinement_node offline
          (drafted\<lparr>human_feedback :=
                     Some (feedback_record (lit ''rework'') None (lit ''plan_review''))\<rparr>) 0)
     = Inl AttributeError
   \<and> reply (resume_research offline ''t1'' (lit ''rework'') None (stored parked) (world parked))
     = Inl (Server_error (StepFailed AttributeError))
   \<and> steps_run (resume_research offline ''t1'' (lit ''rework'') None (stored parked) (world parked))
     = [Plan_review, Refine]
   \<and> route_to (projr (fst (refinement_node offline
         (drafted\<lparr>human_feedback := Some [(''decision'', PyStr (lit ''rework''))]\<rparr>) 0)))
     = Some (lit ''synthesize'')"
  by (simp add: null_notes_raise null_notes_reply null_notes_steps absent_notes_route)

section \<open>The engine\<close>

declare advance_loop.simps(2) [simp del]

text \<open>One round of the loop that calls a step and goes on.\<close>

lemma advance_loop_step:
  assumes "\<not> (current \<in> set interrupt_before \<and> \<not> resuming)"
    and "step current env state w = (Inr b, y)"
    and "next_node current b = Inr ba"
  shows "advance_loop env tid resuming state (Some current) st called w
         = advance_loop env tid False b ba (st(tid \<mapsto> \<lparr>cp_values = b, cp_next = ba\<rparr>))
             (called @ [current]) y"
  using assms by (auto simp: advance_loop.simps(2))

text \<open>
  A run that is not resuming calls no interrupt node, and when it stops before one it
  has persisted the state with that node pending.
\<close>

lemma fresh_run:
  assumes "\<not> resuming"
  shows "\<exists>rest. executed (advance_loop env tid resuming s p st called w) = called @ rest
           \<and> (\<forall>m \<in> set rest. m \<notin> set interrupt_before)"
  using assms
proof (induction env tid resuming s p st called w rule: advance_loop.induct)
  case (1 env thread_id resuming state st called w)
  then show ?case by simp
next
  case (2 env thread_id resuming state current st called w)
  show ?case
  proof (cases "current \<in> set interrupt_before")
    case True
    then show ?thesis using "2.prems" by (simp add: advance_loop.simps(2))
  next
    case False
    then have guard: "\<not> (current \<in> set interrupt_before \<and> \<not> resuming)" by simp
    obtain x y where st: "step current env state w = (x, y)" by (metis prod.exhaust)
    show ?thesis
    proof (cases x)
      case (Inl e)
      then show ?thesis using False st by (simp add: advance_loop.simps(2))
    next
      case (Inr b)
      show ?thesis
      proof (cases "next_node current b")
        case (Inl e)
        then show ?thesis using False st Inr by (simp add: advance_loop.simps(2))
      next
        case nx: (Inr ba)
        have "\<exists>rest. executed (advance_loop env thread_id False b ba
                 (st(thread_id \<mapsto> \<lparr>cp_values = b, cp_next = ba\<rparr>)) (called @ [current]) y)
                 = (called @ [current]) @ rest \<and> (\<forall>m \<in> set rest. m \<notin> set interrupt_before)"
          by (rule "2.IH" [OF guard st [symmetric] Inr nx]) simp
        then obtain rest where
          "executed (advance_loop env thread_id False b ba
                 (st(thread_id \<mapsto> \<lparr>cp_values = b, cp_next = ba\<rparr>)) (called @ [current]) y)
                 = called @ current # rest" "\<forall>m \<in> set rest. m \<notin> set interrupt_before"
          by auto
        moreover have "current \<notin> set interrupt_before" by (rule False)
        ultimately have "executed (advance_loop env thread_id False b ba
                 (st(thread_id \<mapsto> \<lparr>cp_values = b, cp_next = ba\<rparr>)) (called @ [current]) y)
                 = called @ (current # rest) \<and> (\<forall>m \<in> set (current # rest). m \<notin> set interrupt_before)"
          by simp
        then show ?thesis
          unfolding advance_loop_step [OF guard st [unfolded Inr] nx] by blast
      qed
    qed
  qed
qed

lemma fresh_stop:
  assumes "\<not> resuming"
    and "result (advance_loop env tid resuming s p st called w) = Inr (Interrupted m s')"
  shows "m \<in> set interrupt_before
         \<and> stored (advance_loop env tid resuming s p st called w) tid
             = Some \<lparr>cp_values = s', cp_next = Some m\<rparr>"
  using assms
proof (induction env tid resuming s p st called w rule: advance_loop.induct)
  case (1 env thread_id resuming state st called w)
  then show ?case by simp
next
  case (2 env thread_id resuming state current st called w)
  show ?case
  proof (cases "current \<in> set interrupt_before")
    case True
    then show ?thesis using "2.prems" by (simp add: advance_loop.simps(2))
  next
    case False
    then have guard: "\<not> (current \<in> set interrupt_before \<and> \<not> resuming)" by simp
    obtain x y where st: "step current env state w = (x, y)" by (metis prod.exhaust)
    show ?thesis
    proof (cases x)
      case (Inl e)
      then show ?thesis using False st "2.prems" by (simp add: advance_loop.simps(2))
    next
      case (Inr b)
      show ?thesis
      proof (cases "next_node current b")
        case (Inl e)
        then show ?thesis using False st Inr "2.prems" by (simp add: advance_loop.simps(2))
      next
        case nx: (Inr ba)
        note unfold = advance_loop_step [OF guard st [unfolded Inr] nx]
        show ?thesis
          unfolding unfold
          by (rule "2.IH" [OF guard st [symmetric] Inr nx])
             (simp, rule "2.prems"(2) [unfolded unfold])
      qed
    qed
  qed
qed

text \<open>A run that resumes calls the pending node first, and no interrupt node after it.\<close>

lemma resumed_run:
  "\<exists>rest. executed (advance_loop env tid True s (Some n) st called w) = called @ n # rest
          \<and> (\<forall>m \<in> set rest. m \<notin> set interrupt_before)"
proof -
  have guard: "\<not> (n \<in> set interrupt_before \<and> \<not> True)" by simp
  obtain x y where st: "step n env s w = (x, y)" by (metis prod.exhaust)
  show ?thesis
  proof (cases x)
    case (Inl e)
    then show ?thesis using st by (simp add: advance_loop.simps(2))
  next
    case (Inr b)
    show ?thesis
    proof (cases "next_node n b")
      case (Inl e)
      then show ?thesis using st Inr by (simp add: advance_loop.simps(2))
    next
      case nx: (Inr ba)
      obtain rest where
        "executed (advance_loop env tid False b ba (st(tid \<mapsto> \<lparr>cp_values = b, cp_next = ba\<rparr>))
                    (called @ [n]) y) = (called @ [n]) @ rest"
        "\<forall>m \<in> set rest. m \<notin> set interrupt_before"
        using fresh_run [of False env tid b ba "st(tid \<mapsto> \<lparr>cp_values = b, cp_next = ba\<rparr>)"
                            "called @ [n]" y]
        by auto
      then show ?thesis
        unfolding advance_loop_step [OF guard st [unfolded Inr] nx] by simp
    qed
  qed
qed

text \<open>No step function touches the feedback record, so a run leaves it in the store.\<close>

lemma step_feedback_cases:
  "case step n env s w of
     (Inl e, w') \<Rightarrow> True
   | (Inr s', w') \<Rightarrow> human_feedback s' = human_feedback s"
proof (cases n)
  case Input
  then show ?thesis
    by (simp add: input_node_def append_log_def Let_def split: prod.split)
next
  case Search
  then show ?thesis
    by (simp add: search_node_def append_log_def Let_def split: prod.split)
next
  case Extract
  then show ?thesis
    by (simp add: extract_node_def Let_def append_log_def split: prod.split sum.split)
next
  case Prioritize
  then show ?thesis
    by (simp add: author_prioritization_node_def append_log_def Let_def split: prod.split)
next
  case Verify
  then show ?thesis
    by (simp add: verification_node_def append_log_def Let_def split: prod.split)
next
  case Synthesize
  then show ?thesis
    by (simp add: synthesis_node_def Let_def append_log_def split: prod.split sum.split)
next
  case Plan_review
  then show ?thesis
    by (simp add: hitl_plan_review_def append_log_def split: prod.split)
next
  case Refine
  then show ?thesis
    by (simp add: refinement_node_def refine_decision_def Let_def append_log_def
             split: prod.split sum.split option.split list.split)
next
  case Fact_verification
  then show ?thesis
    by (simp add: hitl_fact_verification_def append_log_def Let_def split: prod.split)
next
  case Final_brief
  then show ?thesis
    by (simp add: final_brief_node_def append_log_def split: prod.split sum.split)
qed

lemma step_keeps_feedback:
  assumes "step n env s w = (Inr s', w')"
  shows "human_feedback s' = human_feedback s"
  using step_feedback_cases [where n = n and env = env and s = s and w = w] assms by simp

lemma loop_keeps_feedback:
  assumes "human_feedback s = fb"
    and "\<exists>cp. st tid = Some cp \<and> human_feedback (cp_values cp) = fb"
  shows "\<exists>cp. stored (advance_loop env tid resuming s p st called w) tid = Some cp
              \<and> human_feedback (cp_values cp) = fb"
  using assms
proof (induction env tid resuming s p st called w rule: advance_loop.induct)
  case (1 env thread_id resuming state st called w)
  then show ?case by simp
next
  case (2 env thread_id resuming state current st called w)
  show ?case
  proof (cases "current \<in> set interrupt_before \<and> \<not> resuming")
    case True
    then show ?thesis using "2.prems" by (simp add: advance_loop.simps(2))
  next
    case guard: False
    obtain x y where st: "step current env state w = (x, y)" by (metis prod.exhaust)
    show ?thesis
    proof (cases x)
      case (Inl e)
      then show ?thesis using guard st "2.prems" by (auto simp: advance_loop.simps(2))
    next
      case (Inr b)
      have fb: "human_feedback b = fb"
        using step_keeps_feedback [OF st [unfolded Inr]] "2.prems"(1) by simp
      show ?thesis
      proof (cases "next_node current b")
        case (Inl e)
        then show ?thesis using guard st Inr "2.prems" by (auto simp: advance_loop.simps(2))
      next
        case nx: (Inr ba)
        show ?thesis
          unfolding advance_loop_step [OF guard st [unfolded Inr] nx]
          by (rule "2.IH" [OF guard st [symmetric] Inr nx]) (simp_all add: fb)
      qed
    qed
  qed
qed

text \<open>The step of an interrupt node appends its log entry and never fails to route.\<close>

lemma interrupt_step:
  assumes "n \<in> set interrupt_before"
  shows "\<exists>entry w1. step n env s w = (Inr (s\<lparr>node_logs := node_logs s @ [entry]\<rparr>), w1)
           \<and> node entry = node_name n
           \<and> outputs entry =
               [(''status'', PyStr (if n = Plan_review then lit ''awaiting_human_review''
                                    else lit ''awaiting_human_verification''))]"
  using assms
  by (auto simp: interrupt_before_def hitl_plan_review_def hitl_fact_verification_def
        append_log_def log_node_execution_def Let_def split: prod.splits)

lemma interrupt_next:
  assumes "n \<in> set interrupt_before"
  shows "\<exists>nx. next_node n s = Inr nx"
  using assms
  by (auto simp: interrupt_before_def follow_def plan_review_paths_def
        route_after_plan_review_def)

lemma parked_at_plan_review:
  "map_option cp_next (stored parked ''t1'') = Some (Some Plan_review)"
  by code_simp

lemma approved_at_fact_verification:
  "map_option cp_next (store_after approved ''t1'') = Some (Some Fact_verification)"
  by code_simp

lemma finished_at_end:
  "map_option cp_next (store_after finished ''t1'') = Some None"
  by code_simp

section \<open>Resuming at an interrupt node\<close>

text \<open>
  C1.  When a thread is parked at an interrupt node (\<open>plan_review\<close> or
  \<open>fact_verification\<close>), the run that resumes it calls that node's step function,
  which appends the node's own log entry with the status that awaits the review; the
  node is the first that the run calls, and the run calls no interrupt node after it,
  so the node is executed exactly once.  If the run stops at an interrupt again, it has
  persisted the checkpoint with that node pending.  A run that reaches the node over
  an edge (not resuming) stops before the step: it calls nothing more and persists the
  state with the node pending.
\<close>

theorem resume_runs_interrupt_node_once:
  assumes "n \<in> set interrupt_before"
    and "map_option cp_next (st thread_id) = Some (Some n)"
  shows "\<exists>entry w1 rest.
           step n env (cp_values (the (st thread_id))) w
             = (Inr ((cp_values (the (st thread_id)))
                       \<lparr>node_logs := node_logs (cp_values (the (st thread_id))) @ [entry]\<rparr>), w1)
         \<and> node entry = node_name n
         \<and> outputs entry =
             [(''status'', PyStr (if n = Plan_review then lit ''awaiting_human_review''
                                  else lit ''awaiting_human_verification''))]
         \<and> executed (advance env thread_id None st w) = n # rest
         \<and> (\<forall>m \<in> set rest. m \<notin> set interrupt_before)
         \<and> (\<forall>m s'. result (advance env thread_id None st w) = Inr (Interrupted m s') \<longrightarrow>
                m \<in> set interrupt_before
                \<and> stored (advance env thread_id None st w) thread_id
                    = Some \<lparr>cp_values = s', cp_next = Some m\<rparr>)
         \<and> (\<forall>state st' called w'.
                advance_loop env thread_id False state (Some n) st' called w'
                  = \<lparr>result = Inr (Interrupted n state),
                     stored = st'(thread_id \<mapsto> \<lparr>cp_values = state, cp_next = Some n\<rparr>),
                     executed = called, world = w'\<rparr>)"
proof -
  obtain cp where cp: "st thread_id = Some cp" "cp_next cp = Some n"
    using assms(2) by auto
  let ?s = "cp_values cp"
  have adv: "advance env thread_id None st w
               = advance_loop env thread_id True ?s (Some n) st [] w"
    using cp by (simp add: advance_def)
  obtain entry w1 where own:
    "step n env ?s w = (Inr (?s\<lparr>node_logs := node_logs ?s @ [entry]\<rparr>), w1)"
    "node entry = node_name n"
    "outputs entry = [(''status'', PyStr (if n = Plan_review then lit ''awaiting_human_review''
                                          else lit ''awaiting_human_verification''))]"
    using interrupt_step [OF assms(1), of env ?s w] by blast
  let ?s1 = "?s\<lparr>node_logs := node_logs ?s @ [entry]\<rparr>"
  obtain nx where nx: "next_node n ?s1 = Inr nx"
    using interrupt_next [OF assms(1)] by blast
  have guard: "\<not> (n \<in> set interrupt_before \<and> \<not> True)" by simp
  let ?st1 = "st(thread_id \<mapsto> \<lparr>cp_values = ?s1, cp_next = nx\<rparr>)"
  have unfold: "advance env thread_id None st w
                  = advance_loop env thread_id False ?s1 nx ?st1 ([] @ [n]) w1"
    unfolding adv by (rule advance_loop_step [OF guard own(1) nx])
  obtain rest where rest:
    "executed (advance_loop env thread_id False ?s1 nx ?st1 ([] @ [n]) w1) = ([] @ [n]) @ rest"
    "\<forall>m \<in> set rest. m \<notin> set interrupt_before"
    using fresh_run [of False env thread_id ?s1 nx ?st1 "[] @ [n]" w1] by auto
  have stop: "m \<in> set interrupt_before
              \<and> stored (advance env thread_id None st w) thread_id
                  = Some \<lparr>cp_values = s', cp_next = Some m\<rparr>"
    if "result (advance env thread_id None st w) = Inr (Interrupted m s')" for m s'
    using fresh_stop [of False env thread_id ?s1 nx ?st1 "[] @ [n]" w1 m s'] that
    unfolding unfold by simp
  have first: "advance_loop env thread_id False state (Some n) st' called w'
                  = \<lparr>result = Inr (Interrupted n state),
                     stored = st'(thread_id \<mapsto> \<lparr>cp_values = state, cp_next = Some n\<rparr>),
                     executed = called, world = w'\<rparr>" for state st' called w'
    using assms(1) by (simp add: advance_loop.simps(2))
  have ex: "executed (advance env thread_id None st w) = n # rest"
    using rest(1) unfolding unfold by simp
  show ?thesis
    using own rest(2) stop first ex cp(1) by auto
qed

theorem resume_runs_interrupt_node_once_witness:
  "(\<exists>rest. executed (advance offline ''t1'' None (stored parked) (world parked))
              = Plan_review # rest
           \<and> (\<forall>m \<in> set rest. m \<notin> set interrupt_before))
   \<and> (\<exists>rest. executed (advance offline ''t1'' None (store_after approved) (world_after approved))
              = Fact_verification # rest
           \<and> (\<forall>m \<in> set rest. m \<notin> set interrupt_before))"
proof -
  have a: "Plan_review \<in> set interrupt_before" and b: "Fact_verification \<in> set interrupt_before"
    by (simp_all add: interrupt_before_def)
  show ?thesis
    using resume_runs_interrupt_node_once [where st = "stored parked" and thread_id = "''t1''"
            and env = offline and w = "world parked", OF a parked_at_plan_review]
          resume_runs_interrupt_node_once [where st = "store_after approved"
            and thread_id = "''t1''" and env = offline and w = "world_after approved",
            OF b approved_at_fact_verification]
    by blast
qed

text \<open>
  C6.  When a thread is parked at \<open>plan_review\<close> and the feedback is \<open>approve\<close> (with
  any notes, the empty string among them), the request runs the step of \<open>plan_review\<close>
  and nothing else, \<open>refine\<close> in particular is not called, and the thread is left
  interrupted before \<open>fact_verification\<close>.
\<close>

theorem approve_reaches_fact_verification:
  assumes "map_option cp_next (st thread_id) = Some (Some Plan_review)"
  shows "\<exists>s1 w1.
           hitl_plan_review env
             ((cp_values (the (st thread_id)))
                \<lparr>human_feedback := Some (feedback_record (lit ''approve'') remarks (lit ''plan_review''))\<rparr>) w
             = (Inr s1, w1)
         \<and> reply (resume_research env thread_id (lit ''approve'') remarks st w)
             = Inr (Interrupted_reply thread_id (lit ''fact_verification'') s1)
         \<and> steps_run (resume_research env thread_id (lit ''approve'') remarks st w) = [Plan_review]
         \<and> Refine \<notin> set (steps_run (resume_research env thread_id (lit ''approve'') remarks st w))
         \<and> store_after (resume_research env thread_id (lit ''approve'') remarks st w) thread_id
             = Some \<lparr>cp_values = s1, cp_next = Some Fact_verification\<rparr>"
proof -
  obtain cp where cp: "st thread_id = Some cp" "cp_next cp = Some Plan_review"
    using assms by auto
  let ?s0 = "(cp_values cp)\<lparr>human_feedback := Some (feedback_record (lit ''approve'') remarks (lit ''plan_review''))\<rparr>"
  have "\<exists>s1 w1. hitl_plan_review env ?s0 w = (Inr s1, w1)"
    using interrupt_step [of Plan_review env ?s0 w] by (auto simp: interrupt_before_def)
  then obtain s1 w1 where run: "hitl_plan_review env ?s0 w = (Inr s1, w1)"
    by blast
  have fb: "human_feedback s1 = Some (feedback_record (lit ''approve'') remarks (lit ''plan_review''))"
    using step_keeps_feedback [of Plan_review env ?s0 w s1 w1] run by simp
  have nx: "next_node Plan_review s1 = Inr (Some Fact_verification)"
    by (simp add: fb route_after_plan_review_def dict_get_def feedback_record_def follow_def
          plan_review_paths_def)
  let ?st1 = "st(thread_id \<mapsto> cp\<lparr>cp_values := ?s0\<rparr>)"
  have loop: "advance_loop env thread_id True ?s0 (Some Plan_review) ?st1 [] w
        = \<lparr>result = Inr (Interrupted Fact_verification s1),
           stored = ?st1(thread_id \<mapsto> \<lparr>cp_values = s1, cp_next = Some Fact_verification\<rparr>),
           executed = [Plan_review], world = w1\<rparr>"
    using run nx
    by (simp add: advance_loop.simps(2) interrupt_before_def)
  have adv: "advance env thread_id None (update_state st thread_id ?s0) w
        = \<lparr>result = Inr (Interrupted Fact_verification s1),
           stored = ?st1(thread_id \<mapsto> \<lparr>cp_values = s1, cp_next = Some Fact_verification\<rparr>),
           executed = [Plan_review], world = w1\<rparr>"
    using loop cp by (simp add: advance_def update_state_def)
  have res: "resume_research env thread_id (lit ''approve'') remarks st w
        = resume_reply thread_id (advance env thread_id None (update_state st thread_id ?s0) w)"
    using cp by (simp add: resume_research_def get_state_def Let_def)
  show ?thesis
    using run cp
    by (simp add: res adv resume_reply_def get_state_def)
qed

theorem approve_reaches_fact_verification_witness:
  "steps_run approved = [Plan_review]
   \<and> Refine \<notin> set (steps_run approved)
   \<and> (\<exists>s1. reply approved = Inr (Interrupted_reply ''t1'' (lit ''fact_verification'') s1))"
  using approve_reaches_fact_verification [where st = "stored parked" and thread_id = "''t1''"
          and env = offline and remarks = "Some []" and w = "world parked",
          OF parked_at_plan_review]
  unfolding approved_def Let_def by auto

section \<open>Feedback for a thread that is not parked at an interrupt node\<close>

lemma reopened_reply: "\<not> isl (reply reopened)"
  by code_simp

lemma reopened_steps: "steps_run reopened = []"
  by code_simp

lemma finished_feedback:
  "human_feedback (cp_values (the (store_after finished ''t1'')))
     = Some (feedback_record (lit ''approve'') (Some []) (lit ''fact_verification''))"
  by code_simp

lemma reopened_feedback:
  "human_feedback (cp_values (the (store_after reopened ''t1'')))
     = Some (feedback_record (lit ''rework'') (Some (lit ''more'')) (lit ''none''))"
  by code_simp

text \<open>
  C2.  As the claim states it, feedback for a thread whose pending node is not an
  interrupt node would be refused and would leave the stored state as it was.  It is
  not: for a thread that has reached \<open>END\<close> the request succeeds, and the feedback
  record of the stored state is replaced.
\<close>

theorem resume_research_counterexample:
  "map_option cp_next (store_after finished ''t1'') = Some None
   \<and> \<not> isl (reply reopened)
   \<and> steps_run reopened = []
   \<and> human_feedback (cp_values (the (store_after finished ''t1'')))
       = Some (feedback_record (lit ''approve'') (Some []) (lit ''fact_verification''))
   \<and> human_feedback (cp_values (the (store_after reopened ''t1'')))
       = Some (feedback_record (lit ''rework'') (Some (lit ''more'')) (lit ''none''))"
  by (simp add: finished_at_end reopened_reply reopened_steps finished_feedback
        reopened_feedback)

text \<open>
  C2, amended.  For every thread that has a checkpoint, and so for every one whose
  pending node is not an interrupt node, \<open>resume_research\<close> does not refuse the
  request: the answer is never \<open>not found\<close>, and the feedback record (decision, notes,
  and the name of the pending node or \<open>none\<close>) is in the stored state afterwards.  A
  thread with no pending node is answered \<open>completed\<close> with the state that holds the
  new feedback, no step is called, and the state of its checkpoint is replaced by
  that state.
\<close>

theorem resume_research_unguarded:
  assumes "st thread_id = Some cp"
  shows "reply (resume_research env thread_id decision remarks st w) \<noteq> Inl Not_found
         \<and> (\<exists>cp'. store_after (resume_research env thread_id decision remarks st w) thread_id = Some cp'
                \<and> human_feedback (cp_values cp')
                    = Some (feedback_record decision remarks
                              (case cp_next cp of None \<Rightarrow> lit ''none'' | Some n \<Rightarrow> node_name n)))
         \<and> (cp_next cp = None \<longrightarrow>
               reply (resume_research env thread_id decision remarks st w)
                 = Inr (Completed_reply thread_id (final_brief (cp_values cp))
                          ((cp_values cp)
                             \<lparr>human_feedback :=
                                Some (feedback_record decision remarks (lit ''none''))\<rparr>))
               \<and> steps_run (resume_research env thread_id decision remarks st w) = []
               \<and> store_after (resume_research env thread_id decision remarks st w)
                   = st(thread_id \<mapsto>
                          cp\<lparr>cp_values :=
                               (cp_values cp)
                                 \<lparr>human_feedback :=
                                    Some (feedback_record decision remarks (lit ''none''))\<rparr>\<rparr>))"
proof -
  let ?fb = "feedback_record decision remarks
               (case cp_next cp of None \<Rightarrow> lit ''none'' | Some n \<Rightarrow> node_name n)"
  let ?s0 = "(cp_values cp)\<lparr>human_feedback := Some ?fb\<rparr>"
  let ?st1 = "st(thread_id \<mapsto> cp\<lparr>cp_values := ?s0\<rparr>)"
  let ?run = "advance_loop env thread_id True ?s0 (cp_next cp) ?st1 [] w"
  have res: "resume_research env thread_id decision remarks st w = resume_reply thread_id ?run"
    using assms
    by (simp add: resume_research_def get_state_def Let_def update_state_def advance_def)
  have kept: "\<exists>cp'. stored ?run thread_id = Some cp' \<and> human_feedback (cp_values cp') = Some ?fb"
    by (rule loop_keeps_feedback) simp_all
  have no404: "reply (resume_reply thread_id ?run) \<noteq> Inl Not_found"
    by (simp add: resume_reply_def split: sum.splits option.splits)
  have ended: "?run = \<lparr>result = Inr (Completed ?s0), stored = ?st1, executed = [], world = w\<rparr>"
    if "cp_next cp = None"
    using that by simp
  show ?thesis
    unfolding res
    using kept no404 ended
    by (auto simp: resume_reply_def get_state_def)
qed

theorem resume_research_unguarded_witness:
  "reply reopened \<noteq> Inl Not_found
   \<and> steps_run reopened = []
   \<and> (\<exists>cp'. store_after reopened ''t1'' = Some cp'
          \<and> human_feedback (cp_values cp')
              = Some (feedback_record (lit ''rework'') (Some (lit ''more'')) (lit ''none'')))"
proof -
  obtain cp where cp: "store_after finished ''t1'' = Some cp" "cp_next cp = None"
    using finished_at_end by auto
  show ?thesis
    using resume_research_unguarded [where st = "store_after finished" and thread_id = "''t1''"
            and env = offline and decision = "lit ''rework''" and remarks = "Some (lit ''more'')"
            and w = "world_after finished", OF cp(1)] cp(2)
    unfolding reopened_def Let_def by simp
qed

end
